theory Spec2Isabelle
  imports Complex_Main
begin

section \<open>The session router of clicker/internal/proxy/router.go\<close>

text \<open>
  The router owns one \<open>BrowserSession\<close> per client. The model threads a \<open>world\<close> through
  every operation: the session's fields, the buffered channels the session has made, a
  clock, and the log of the calls made on the session's collaborators (client socket,
  BiDi connection, BiDi client, browser process), in the order they are made.

  Conventions.
  \<^item> Instants and \<open>time.Duration\<close> values are nanoseconds, as in Go.
  \<^item> Go's \<open>int\<close> is taken as 64 bits wide; an increment wraps as \<open>wrap64\<close> says.
  \<^item> A channel is known by its identity (a number handed out by \<open>make\<close>); its buffer and
    its closed flag live in the store \<open>chans\<close>.
  \<^item> What the Go standard library and the browser decide (JSON decoding, the outcome of
    a socket write, the instant a reply or an event arrives, which ready case a
    \<open>select\<close> takes) is read from an environment record \<open>env\<close>.
\<close>

subsection \<open>Machine integers\<close>

definition wrap64 :: "int \<Rightarrow> int" where
  "wrap64 n = (n + 2 ^ 63) mod 2 ^ 64 - 2 ^ 63"

text \<open>
  Go's conversion of a float64 to an integer type discards the fraction (truncation
  towards zero). Outside the range of int64 the result depends on the platform; the
  model takes the amd64 value, the smallest int64.
\<close>

definition float64_to_int :: "real \<Rightarrow> int" where
  "float64_to_int f =
     (let t = (if 0 \<le> f then \<lfloor>f\<rfloor> else \<lceil>f\<rceil>)
      in if - (2 ^ 63) \<le> t \<and> t < 2 ^ 63 then t else - (2 ^ 63))"

subsection \<open>Data\<close>

type_synonym chan = nat
type_synonym handle = nat

datatype json =
    JNull
  | JBool bool
  | JInt int
  | JNum real
  | JStr string
  | JArr "json list"
  | JObj "(string \<times> json) list"

record bidiCommand =
  cmd_ID :: int
  cmd_Method :: string
  cmd_Params :: "string \<rightharpoonup> json"

record bidiError =
  err_Error :: string
  err_Message :: string

record bidiResponse =
  resp_ID :: int
  resp_Type :: string
  resp_Result :: "json option"
  resp_Error :: "bidiError option"

record boxInfo =
  box_X :: real
  box_Y :: real
  box_Width :: real
  box_Height :: real

record elementInfo =
  info_Tag :: string
  info_Text :: string
  info_Box :: boxInfo

text \<open>
  The fields of \<open>BrowserSession\<close>. The mutexes are left out: every operation of the model
  runs its critical sections atomically. \<open>stopChan\<close> is \<open>True\<close> once the channel has been
  closed. A nil pointer is \<open>None\<close>. A Go map from a method to a slice returns the nil
  slice for a missing key, so \<open>eventListeners\<close> is a total function into lists.
\<close>

record BrowserSession =
  LaunchResult :: "handle option"
  BidiConn :: "handle option"
  BidiClient :: "handle option"
  Client :: nat
  closed :: bool
  stopChan :: bool
  internalCmds :: "int \<rightharpoonup> chan"
  nextInternalID :: int
  navigationSubscriptionID :: string
  eventListeners :: "string \<Rightarrow> chan list"

record chan_state =
  buf :: "string list"
  cap :: nat
  ch_closed :: bool

text \<open>The calls the router makes on its collaborators.\<close>

datatype action =
    ClientSend string \<comment> \<open>\<open>session.Client.Send(msg)\<close>, a frame forwarded as it came\<close>
  | ClientSendJSON bidiResponse \<comment> \<open>\<open>session.Client.Send(string(json.Marshal(resp)))\<close>\<close>
  | ClientClose \<comment> \<open>\<open>session.Client.Close()\<close>\<close>
  | BidiSend string \<comment> \<open>\<open>session.BidiConn.Send(msg)\<close>, a client frame forwarded as it came\<close>
  | BidiSendCmd int string json \<comment> \<open>\<open>session.BidiConn.Send\<close> of the marshalled \<open>{id, method, params}\<close>\<close>
  | SessionSubscribe "string list" \<comment> \<open>\<open>bidiClient.SessionSubscribe(events, nil, nil)\<close>\<close>
  | SessionUnsubscribeByID "string list" \<comment> \<open>\<open>session.BidiClient.SessionUnsubscribeByID\<close>\<close>
  | CloseStopChan \<comment> \<open>\<open>close(session.stopChan)\<close>\<close>
  | BidiConnClose \<comment> \<open>\<open>session.BidiConn.Close()\<close>\<close>
  | LaunchResultClose \<comment> \<open>\<open>session.LaunchResult.Close()\<close>\<close>

record world =
  sess :: BrowserSession
  chans :: "chan \<Rightarrow> chan_state"
  nextChan :: chan
  now :: int
  log :: "action list"

definition emit :: "action \<Rightarrow> world \<Rightarrow> world" where
  "emit a w = w\<lparr>log := log w @ [a]\<rparr>"

subsection \<open>The BiDi client's synchronous command\<close>

text \<open>
  The fields of \<open>bidi.Message\<close> (protocol.go 43-52) that \<open>SendCommand\<close> looks at; an absent
  \<open>id\<close> is \<open>None\<close>, an absent \<open>error\<close> or \<open>method\<close> the empty string.
\<close>

record Message =
  msg_ID :: "int option"
  msg_Error :: string
  msg_Method :: string

text \<open>
  What one call of \<open>SendCommand\<close> meets.
  \<^item> \<open>next_id\<close>: the id that \<open>NextID()\<close> gives the command.
  \<^item> \<open>conn_send_error\<close>: the error of \<open>c.conn.Send\<close>.
  \<^item> \<open>receive_results\<close>: what the successive calls of \<open>c.conn.Receive()\<close> made by this caller
    return, \<open>Inl\<close> an error; after the last entry no frame reaches this caller any more
    and the connection stays open, so the next \<open>Receive\<close> does not return. The
    Correlator reads the same connection, and a frame goes to one reader only.
  \<^item> \<open>decode_message\<close>: \<open>UnmarshalMessage\<close>, \<open>Inl\<close> its error.
  \<^item> \<open>decode_error\<close>: the error and message that \<open>GetError\<close> reads from the \<open>error\<close>
    field, \<open>None\<close> when it reads neither an object nor a string.
\<close>

record bidi_env =
  next_id :: int
  conn_send_error :: "string option"
  receive_results :: "(string + string) list"
  decode_message :: "string \<Rightarrow> string + Message"
  decode_error :: "string \<Rightarrow> (string \<times> string) option"

text \<open>The error returned for an error response (protocol.go 410-416).\<close>

definition bidiErrorText :: "bidi_env \<Rightarrow> Message \<Rightarrow> string" where
  "bidiErrorText b msg =
     (case decode_error b (msg_Error msg) of
        Some (er, mg) \<Rightarrow> ''BiDi error: '' @ er @ '' - '' @ mg
      | None \<Rightarrow> ''BiDi error: '' @ msg_Error msg)"

text \<open>
  The loop of the synchronous mode (protocol.go 393-427): read until the response with
  the command's id arrives; events and responses to other commands are passed over.
  \<open>None\<close>: the loop stays in \<open>Receive\<close> for ever.
\<close>

fun receiveResponse :: "bidi_env \<Rightarrow> (string + string) list \<Rightarrow> (string + Message) option" where
  "receiveResponse b [] = None"
| "receiveResponse b (Inl err # rs) = Some (Inl (''failed to receive response: '' @ err))"
| "receiveResponse b (Inr resp # rs) =
     (case decode_message b resp of
        Inl err \<Rightarrow> Some (Inl (''failed to parse response: '' @ err))
      | Inr msg \<Rightarrow>
          if msg_ID msg = Some (next_id b)
          then (if msg_Error msg \<noteq> [] then Some (Inl (bidiErrorText b msg)) else Some (Inr msg))
          else receiveResponse b rs)"

text \<open>
  \<open>SendCommand\<close> (protocol.go 344-428) as the router's sessions run it: the router never
  calls \<open>StartEventLoop\<close>, so \<open>eventLoopRunning\<close> is false and the command is sent and
  answered in the synchronous mode. The params of the router's commands always marshal.
\<close>

definition SendCommand :: "bidi_env \<Rightarrow> (string + Message) option" where
  "SendCommand b =
     (case conn_send_error b of
        Some err \<Rightarrow> Some (Inl (''failed to send command: '' @ err))
      | None \<Rightarrow> receiveResponse b (receive_results b))"

text \<open>
  \<open>SessionUnsubscribeByID\<close> (protocol.go 213-220): the error of \<open>SendCommand\<close>, \<open>Some None\<close>
  being the return without error and \<open>None\<close> the call that does not return.
\<close>

definition SessionUnsubscribeByID_result :: "bidi_env \<Rightarrow> string option option" where
  "SessionUnsubscribeByID_result b =
     (case SendCommand b of
        None \<Rightarrow> None
      | Some (Inl err) \<Rightarrow> Some (Some err)
      | Some (Inr msg) \<Rightarrow> Some None)"

subsection \<open>closeSession\<close>

text \<open>
  \<open>closeSession\<close> (router.go 794-829). The first component of the result says whether
  the call returns; it does not when the unsubscription does not. The error of the
  unsubscription is only printed.
\<close>

definition closeSession :: "bidi_env \<Rightarrow> world \<Rightarrow> bool \<times> world" where
  "closeSession b w =
     (if closed (sess w) then (True, w)
      else
        let w1 = w\<lparr>sess := (sess w)\<lparr>closed := True\<rparr>\<rparr>
        in if navigationSubscriptionID (sess w1) \<noteq> [] \<and> BidiClient (sess w1) \<noteq> None
              \<and> SessionUnsubscribeByID_result b = None
           then (False, emit (SessionUnsubscribeByID [navigationSubscriptionID (sess w1)]) w1)
           else
             let w2 = (if navigationSubscriptionID (sess w1) \<noteq> [] \<and> BidiClient (sess w1) \<noteq> None
                       then emit (SessionUnsubscribeByID [navigationSubscriptionID (sess w1)]) w1
                       else w1);
                 w3 = emit CloseStopChan (w2\<lparr>sess := (sess w2)\<lparr>stopChan := True\<rparr>\<rparr>);
                 w4 = (if BidiConn (sess w3) \<noteq> None then emit BidiConnClose w3 else w3);
                 w5 = (if LaunchResult (sess w4) \<noteq> None then emit LaunchResultClose w4 else w4)
             in (True, w5))"


subsection \<open>The environment\<close>

datatype sel_case = Recv | Timer | Stop

text \<open>
  Everything a run depends on that the router does not decide.
  \<^item> \<open>send_error i\<close>: the error of \<open>BidiConn.Send\<close> for the internal command with id \<open>i\<close>.
  \<^item> \<open>reply i = Some (d, frame)\<close>: the Correlator puts \<open>frame\<close> into the reply channel of the
    internal command with id \<open>i\<close>, \<open>d\<close> nanoseconds after the command was written;
    \<open>None\<close>: never.
  \<^item> \<open>stop_at\<close>: the instant at which a concurrent \<open>closeSession\<close> closes \<open>stopChan\<close>.
  \<^item> \<open>browser_events\<close>: instant and method of each event the Correlator dispatches.
  \<^item> \<open>pick t cases\<close>: the case a \<open>select\<close> takes at instant \<open>t\<close> among the ready
    \<open>cases\<close> (Go chooses among ready cases at random).
  \<^item> \<open>client_send_error\<close>: the error of \<open>Client.Send\<close> for a frame.
  \<^item> \<open>decode_*\<close>: \<open>json.Unmarshal\<close> into the struct the code decodes to, \<open>Inl\<close> its error.
  \<^item> \<open>runes_of\<close>: the runes of a Go string, each converted back to a string.
  \<^item> \<open>round64\<close>: rounding of an exact result to the nearest float64.
  The scheduler is taken to be prompt: a timer fires and a sleeper wakes at the instant
  asked for, and anything that is not a wait takes no time.
\<close>

record env =
  send_error :: "int \<Rightarrow> string option"
  reply :: "int \<Rightarrow> (nat \<times> string) option"
  stop_at :: "int option"
  browser_events :: "(int \<times> string) list"
  pick :: "int \<Rightarrow> sel_case list \<Rightarrow> sel_case"
  client_send_error :: "string \<Rightarrow> string option"
  decode_command :: "string \<Rightarrow> bidiCommand option"
  decode_frame :: "string \<Rightarrow> (int option \<times> string) option"
  decode_getTree :: "string \<Rightarrow> string + string list"
  decode_callFunction :: "string \<Rightarrow> (string \<times> string) option"
  decode_elementInfo :: "string \<Rightarrow> elementInfo option"
  runes_of :: "string \<Rightarrow> string list"
  round64 :: "real \<Rightarrow> real"

subsection \<open>Durations and their text\<close>

definition Millisecond :: int where
  "Millisecond = 1000000"

definition Second :: int where
  "Second = 1000000000"

definition defaultTimeout :: int where
  "defaultTimeout = 30 * Second"

text \<open>\<open>time.Duration(timeoutMs) * time.Millisecond\<close>, an int64 product.\<close>

definition duration_of_ms :: "real \<Rightarrow> int" where
  "duration_of_ms timeoutMs = wrap64 (float64_to_int timeoutMs * Millisecond)"

text \<open>
  \<open>fmt\<close> prints a \<open>time.Duration\<close> under \<open>%s\<close> with its \<open>String\<close> method (Go standard
  library, time/time.go): below one second the largest unit that keeps the integer part
  non-zero, from one second on hours, minutes and seconds; trailing zeros of the
  fraction, and an empty fraction's point, are dropped.
\<close>

definition digit_char :: "nat \<Rightarrow> char" where
  "digit_char d = ''0123456789'' ! (d mod 10)"

function fmtFrac :: "nat \<Rightarrow> nat \<Rightarrow> bool \<Rightarrow> string \<Rightarrow> string \<times> nat" where
  "fmtFrac prec v pr acc =
     (if prec = 0 then ((if pr then CHR ''.'' # acc else acc), v)
      else let pr' = (pr \<or> v mod 10 \<noteq> 0)
           in fmtFrac (prec - 1) (v div 10) pr' (if pr' then digit_char (v mod 10) # acc else acc))"
  by pat_completeness auto
termination
  by (relation "measure fst") auto

function fmtDigits :: "nat \<Rightarrow> string \<Rightarrow> string" where
  "fmtDigits v acc = (if v = 0 then acc else fmtDigits (v div 10) (digit_char (v mod 10) # acc))"
  by pat_completeness auto
termination
  by (relation "measure fst") auto

definition fmtInt :: "nat \<Rightarrow> string" where
  "fmtInt v = (if v = 0 then ''0'' else fmtDigits v [])"

definition durationString :: "int \<Rightarrow> string" where
  "durationString d =
     (let u = nat \<bar>d\<bar>;
          body =
            (if u < 1000000000 then
               (if u = 0 then ''0s''
                else if u < 1000 then fmtInt u @ ''ns''
                else if u < 1000000 then
                  (case fmtFrac 3 u False [] of (fr, v) \<Rightarrow> fmtInt v @ fr @ [CHR 0xC2, CHR 0xB5, CHR ''s''])
                else (case fmtFrac 6 u False [] of (fr, v) \<Rightarrow> fmtInt v @ fr @ ''ms''))
             else
               (case fmtFrac 9 u False [] of (fr, v) \<Rightarrow>
                  (let secs = fmtInt (v mod 60) @ fr @ ''s''; m = v div 60
                   in if m > 0 then
                        (let mins = fmtInt (m mod 60) @ ''m''; h = m div 60
                         in (if h > 0 then fmtInt h @ ''h'' else []) @ mins @ secs)
                      else secs)))
      in if d < 0 then CHR ''-'' # body else body)"

subsection \<open>select\<close>

text \<open>
  A \<open>select\<close> with a timer case. Each other case comes with the instant from which it is
  ready (\<open>None\<close>: never), not earlier than the instant the \<open>select\<close> starts. The
  \<open>select\<close> returns at the earliest instant at which a case is ready, with a case that
  is ready then; the environment's \<open>pick\<close> settles a tie (the first ready case is
  taken when \<open>pick\<close> names a case that is not ready).
\<close>

fun ready_cases :: "(sel_case \<times> int option) list \<Rightarrow> (sel_case \<times> int) list" where
  "ready_cases [] = []"
| "ready_cases ((c, None) # xs) = ready_cases xs"
| "ready_cases ((c, Some t) # xs) = (c, t) # ready_cases xs"

definition select :: "(sel_case list \<Rightarrow> sel_case) \<Rightarrow> int \<Rightarrow> (sel_case \<times> int option) list
    \<Rightarrow> sel_case \<times> int" where
  "select pk timer alts =
     (let rs = ready_cases alts @ [(Timer, timer)];
          t = fold (\<lambda>r m. min (snd r) m) rs timer;
          cands = map fst (filter (\<lambda>r. snd r = t) rs);
          c = (if pk cands \<in> set cands then pk cands else hd cands)
      in (c, t))"

subsection \<open>Internal commands\<close>

text \<open>
  \<open>sendInternalCommand\<close> (router.go 757-791) in its three parts: the registration under
  the lock (758-763), the deferred removal (765-769), and the write followed by the
  \<open>select\<close> (771-790). A reply that the Correlator delivers and the \<open>select\<close> takes
  passes through the channel's buffer and leaves it as it was, so the store of channels
  is not touched by the wait. The receive is ready only when there is a reply, so the
  branch of \<open>awaitInternal\<close> for a receive without reply is never taken.
\<close>

definition registerInternal :: "world \<Rightarrow> int \<times> chan \<times> world" where
  "registerInternal w =
     (let i = nextInternalID (sess w); ch = nextChan w
      in (i, ch,
          w\<lparr>sess := (sess w)\<lparr>nextInternalID := wrap64 (i + 1),
                              internalCmds := (internalCmds (sess w))(i \<mapsto> ch)\<rparr>,
            chans := (chans w)(ch := \<lparr>buf = [], cap = 1, ch_closed = False\<rparr>),
            nextChan := Suc ch\<rparr>))"

definition unregisterInternal :: "int \<Rightarrow> world \<Rightarrow> world" where
  "unregisterInternal i w =
     w\<lparr>sess := (sess w)\<lparr>internalCmds := (internalCmds (sess w))(i := None)\<rparr>\<rparr>"

text \<open>The instant from which a receive from \<open>stopChan\<close> is ready.\<close>

definition stop_ready :: "env \<Rightarrow> world \<Rightarrow> int option" where
  "stop_ready e w = (if stopChan (sess w) then Some (now w) else map_option (max (now w)) (stop_at e))"

definition awaitInternal :: "env \<Rightarrow> world \<Rightarrow> int \<Rightarrow> string \<Rightarrow> (string + string) \<times> world" where
  "awaitInternal e w i method =
     (let t0 = now w;
          alts = [(Recv, map_option (\<lambda>r. t0 + int (fst r)) (reply e i)),
                  (Stop, stop_ready e w)]
      in case select (pick e t0) (t0 + 60 * Second) alts of
           (Recv, t) \<Rightarrow> (case reply e i of
                           Some r \<Rightarrow> (Inr (snd r), w\<lparr>now := t\<rparr>)
                         | None \<Rightarrow> (Inl (''timeout waiting for response to '' @ method), w\<lparr>now := t\<rparr>))
         | (Timer, t) \<Rightarrow> (Inl (''timeout waiting for response to '' @ method), w\<lparr>now := t\<rparr>)
         | (Stop, t) \<Rightarrow> (Inl ''session closed'', w\<lparr>now := t\<rparr>))"

definition sendInternalCommand :: "env \<Rightarrow> world \<Rightarrow> string \<Rightarrow> json \<Rightarrow> (string + string) \<times> world" where
  "sendInternalCommand e w method params =
     (case registerInternal w of (i, ch, w1) \<Rightarrow>
        (let w2 = emit (BidiSendCmd i method params) w1
         in case send_error e i of
              Some err \<Rightarrow> (Inl err, unregisterInternal i w2)
            | None \<Rightarrow> (case awaitInternal e w2 i method of
                         (res, w3) \<Rightarrow> (res, unregisterInternal i w3))))"

subsection \<open>Replies to the client\<close>

text \<open>\<open>sendSuccess\<close> (629-633) and \<open>sendError\<close> (636-647).\<close>

definition sendSuccess :: "world \<Rightarrow> int \<Rightarrow> json \<Rightarrow> world" where
  "sendSuccess w i result =
     emit (ClientSendJSON \<lparr>resp_ID = i, resp_Type = ''success'', resp_Result = Some result,
                           resp_Error = None\<rparr>) w"

definition sendError :: "world \<Rightarrow> int \<Rightarrow> string \<Rightarrow> world" where
  "sendError w i err =
     emit (ClientSendJSON \<lparr>resp_ID = i, resp_Type = ''error'', resp_Result = None,
                           resp_Error = Some \<lparr>err_Error = ''timeout'', err_Message = err\<rparr>\<rparr>) w"

subsection \<open>The event-listener registry\<close>

text \<open>
  \<open>addEventListener\<close> (651-657) and \<open>removeEventListener\<close> (660-672): the scan stops at
  the first listener equal to the channel, removes it from the slice and closes it.
\<close>

definition addEventListener :: "world \<Rightarrow> string \<Rightarrow> chan \<times> world" where
  "addEventListener w method =
     (let ch = nextChan w
      in (ch,
          w\<lparr>sess := (sess w)\<lparr>eventListeners :=
                                (eventListeners (sess w))(method := eventListeners (sess w) method @ [ch])\<rparr>,
            chans := (chans w)(ch := \<lparr>buf = [], cap = 10, ch_closed = False\<rparr>),
            nextChan := Suc ch\<rparr>))"

definition removeEventListener :: "world \<Rightarrow> string \<Rightarrow> chan \<Rightarrow> world" where
  "removeEventListener w method ch =
     (let listeners = eventListeners (sess w) method
      in if ch \<in> set listeners
         then w\<lparr>sess := (sess w)\<lparr>eventListeners :=
                                    (eventListeners (sess w))(method := remove1 ch listeners)\<rparr>,
                chans := (chans w)(ch := (chans w ch)\<lparr>ch_closed := True\<rparr>)\<rparr>
         else w)"

subsection \<open>The extension commands\<close>

definition param_string :: "bidiCommand \<Rightarrow> string \<Rightarrow> string" where
  "param_string cmd k = (case cmd_Params cmd k of Some (JStr s) \<Rightarrow> s | _ \<Rightarrow> [])"

definition param_float64 :: "bidiCommand \<Rightarrow> string \<Rightarrow> real" where
  "param_float64 cmd k = (case cmd_Params cmd k of Some (JNum f) \<Rightarrow> f | _ \<Rightarrow> 0)"

text \<open>The closure \<open>remainingTime\<close> (202-208, 342-348).\<close>

definition remainingTime :: "world \<Rightarrow> int \<Rightarrow> int" where
  "remainingTime w deadline = (if deadline - now w < 0 then 0 else deadline - now w)"

text \<open>\<open>getContext\<close> (542-562).\<close>

definition getContext :: "env \<Rightarrow> world \<Rightarrow> (string + string) \<times> world" where
  "getContext e w =
     (case sendInternalCommand e w ''browsingContext.getTree'' (JObj []) of
        (Inl err, w1) \<Rightarrow> (Inl err, w1)
      | (Inr resp, w1) \<Rightarrow>
          (case decode_getTree e resp of
             Inl err \<Rightarrow> (Inl (''failed to parse getTree response: '' @ err), w1)
           | Inr [] \<Rightarrow> (Inl ''no browsing contexts available'', w1)
           | Inr (c # cs) \<Rightarrow> (Inr c, w1)))"

text \<open>
  One turn of the loop of \<open>waitForElement\<close> up to its deadline test (588-618): the
  script call and the decoding of its reply. \<open>findScript\<close> is the script text with
  its line breaks and indentation left out; the model does not look into it.
\<close>

definition findScript :: string where
  "findScript =
     ''(selector) => { const el = document.querySelector(selector); if (!el) return null; ''
     @ ''const rect = el.getBoundingClientRect(); return JSON.stringify({ ''
     @ ''tag: el.tagName.toLowerCase(), text: (el.textContent || '' @ [CHR 0x27, CHR 0x27]
     @ '').trim().substring(0, 100), ''
     @ ''box: { x: rect.x, y: rect.y, width: rect.width, height: rect.height } }); }''"

definition findParams :: "string \<Rightarrow> string \<Rightarrow> json" where
  "findParams context selector =
     JObj [(''functionDeclaration'', JStr findScript),
           (''target'', JObj [(''context'', JStr context)]),
           (''arguments'', JArr [JObj [(''type'', JStr ''string''), (''value'', JStr selector)]]),
           (''awaitPromise'', JBool False),
           (''resultOwnership'', JStr ''root'')]"

definition pollElement :: "env \<Rightarrow> world \<Rightarrow> string \<Rightarrow> string \<Rightarrow> elementInfo option \<times> world" where
  "pollElement e w context selector =
     (case sendInternalCommand e w ''script.callFunction'' (findParams context selector) of
        (Inl err, w1) \<Rightarrow> (None, w1)
      | (Inr resp, w1) \<Rightarrow>
          (case decode_callFunction e resp of
             None \<Rightarrow> (None, w1)
           | Some (ty, val) \<Rightarrow>
               if ty = ''string'' \<and> val \<noteq> [] then (decode_elementInfo e val, w1)
               else (None, w1)))"

definition interval :: int where
  "interval = 100 * Millisecond"

definition notFound :: "int \<Rightarrow> string \<Rightarrow> string" where
  "notFound timeout selector =
     ''timeout after '' @ durationString timeout @ '' waiting for '' @ [CHR 0x27] @ selector
       @ [CHR 0x27] @ '': element not found''"

text \<open>
  The loop of \<open>waitForElement\<close> (587-625) and \<open>waitForElement\<close> itself (565-626). Only a
  decoded element ends the loop before the deadline; after any other turn the loop
  tests the deadline and sleeps for \<open>interval\<close>.
\<close>

function waitForElement_loop ::
    "env \<Rightarrow> string \<Rightarrow> string \<Rightarrow> int \<Rightarrow> int \<Rightarrow> world \<Rightarrow> (string + elementInfo) \<times> world" where
  "waitForElement_loop e context selector timeout deadline w =
     (case pollElement e w context selector of
        (Some info, w1) \<Rightarrow> (Inr info, w1)
      | (None, w1) \<Rightarrow>
          if now w1 > deadline then (Inl (notFound timeout selector), w1)
          else waitForElement_loop e context selector timeout deadline (w1\<lparr>now := now w1 + interval\<rparr>))"
  by pat_completeness auto
termination
proof (relation "measure (\<lambda>(e, context, selector, timeout, deadline, w). nat (deadline + 1 - now w))",
       goal_cases)
  case 1
  show ?case by simp
next
  case (2 e ctx selector timeout deadline w x1 w1)
  have fold_ge: "t0 \<le> fold (\<lambda>r m. min (snd r) m) rs m"
    if "t0 \<le> m" and "\<forall>r \<in> set rs. t0 \<le> snd r"
    for t0 m :: int and rs :: "(sel_case \<times> int) list"
    using that by (induction rs arbitrary: m) auto
  have sel_ge: "t0 \<le> snd (select pk tm alts)"
    if "t0 \<le> tm" and "\<forall>r \<in> set (ready_cases alts). t0 \<le> snd r"
    for t0 tm pk alts
    using that by (simp add: select_def Let_def fold_ge)
  have await_ge: "now v \<le> now (snd (awaitInternal e v i m))" for v i m
  proof -
    let ?alts = "[(Recv, map_option (\<lambda>r. now v + int (fst r)) (reply e i)), (Stop, stop_ready e v)]"
    obtain c t where ct: "select (pick e (now v)) (now v + 60 * Second) ?alts = (c, t)"
      by (cases "select (pick e (now v)) (now v + 60 * Second) ?alts")
    have "\<forall>r \<in> set (ready_cases ?alts). now v \<le> snd r"
      by (cases "reply e i"; cases "stop_at e") (auto simp: stop_ready_def)
    then have "now v \<le> snd (select (pick e (now v)) (now v + 60 * Second) ?alts)"
      by (intro sel_ge) (simp_all add: Second_def)
    with ct have "now v \<le> t" by simp
    with ct show ?thesis
      by (cases c; cases "reply e i") (simp_all add: awaitInternal_def Let_def)
  qed
  have send_ge: "now v \<le> now (snd (sendInternalCommand e v m p))" for v m p
  proof -
    obtain i ch v1 where r: "registerInternal v = (i, ch, v1)"
      by (cases "registerInternal v") auto
    then have v1: "now v1 = now v"
      by (auto simp: registerInternal_def Let_def)
    let ?v2 = "emit (BidiSendCmd i m p) v1"
    have "now ?v2 = now v" using v1 by (simp add: emit_def)
    with await_ge [of ?v2 i m] have "now v \<le> now (snd (awaitInternal e ?v2 i m))" by simp
    with r v1 show ?thesis
      by (cases "send_error e i"; cases "awaitInternal e ?v2 i m")
         (simp_all add: sendInternalCommand_def unregisterInternal_def emit_def Let_def)
  qed
  have "snd (pollElement e w ctx selector)
        = snd (sendInternalCommand e w ''script.callFunction'' (findParams ctx selector))"
    by (simp add: pollElement_def split: prod.splits sum.splits option.splits)
  with send_ge [of w] have "now w \<le> now (snd (pollElement e w ctx selector))" by simp
  moreover from 2 have "snd (pollElement e w ctx selector) = w1"
    by (metis snd_conv)
  ultimately have "now w \<le> now w1" by simp
  with 2 show ?case by (simp add: interval_def Millisecond_def)
qed

definition waitForElement ::
    "env \<Rightarrow> world \<Rightarrow> string \<Rightarrow> string \<Rightarrow> int \<Rightarrow> (string + elementInfo) \<times> world" where
  "waitForElement e w context selector timeout =
     waitForElement_loop e context selector timeout (now w + timeout) w"

text \<open>
  The pointer position (228-229, 368-369): \<open>int(info.Box.X + info.Box.Width/2)\<close>, float64
  arithmetic followed by the conversion to \<open>int\<close>.
\<close>

definition pointerX :: "env \<Rightarrow> elementInfo \<Rightarrow> int" where
  "pointerX e info =
     float64_to_int (round64 e (box_X (info_Box info) + round64 e (box_Width (info_Box info) / 2)))"

definition pointerY :: "env \<Rightarrow> elementInfo \<Rightarrow> int" where
  "pointerY e info =
     float64_to_int (round64 e (box_Y (info_Box info) + round64 e (box_Height (info_Box info) / 2)))"

text \<open>\<open>clickParams\<close> (231-247, 371-387), \<open>keyActions\<close> (395-401) and \<open>typeParams\<close> (403-412).\<close>

definition clickParams :: "string \<Rightarrow> int \<Rightarrow> int \<Rightarrow> json" where
  "clickParams context x y =
     JObj [(''context'', JStr context),
           (''actions'', JArr [
              JObj [(''type'', JStr ''pointer''),
                    (''id'', JStr ''mouse''),
                    (''parameters'', JObj [(''pointerType'', JStr ''mouse'')]),
                    (''actions'', JArr [
                       JObj [(''type'', JStr ''pointerMove''), (''x'', JInt x), (''y'', JInt y),
                             (''duration'', JInt 0)],
                       JObj [(''type'', JStr ''pointerDown''), (''button'', JInt 0)],
                       JObj [(''type'', JStr ''pointerUp''), (''button'', JInt 0)]])]])]"

definition keyActions :: "env \<Rightarrow> string \<Rightarrow> json list" where
  "keyActions e text =
     concat (map (\<lambda>c. [JObj [(''type'', JStr ''keyDown''), (''value'', JStr c)],
                         JObj [(''type'', JStr ''keyUp''), (''value'', JStr c)]])
                 (runes_of e text))"

definition typeParams :: "env \<Rightarrow> string \<Rightarrow> string \<Rightarrow> json" where
  "typeParams e context text =
     JObj [(''context'', JStr context),
           (''actions'', JArr [
              JObj [(''type'', JStr ''key''),
                    (''id'', JStr ''keyboard''),
                    (''actions'', JArr (keyActions e text))]])]"

text \<open>
  A wait stage (285-292, 296-303, 305-312 and their copies in \<open>handleVibiumType\<close>): a
  \<open>select\<close> between a receive from the listener channel of \<open>method\<close> and
  \<open>time.After(remainingTime())\<close>. The channel was registered at \<open>t_reg\<close> and is closed
  only after the waits, so the receive is ready from the first event of the method
  dispatched at or after \<open>t_reg\<close>. The result is \<open>True\<close> when the event was received.
\<close>

definition first_event :: "env \<Rightarrow> string \<Rightarrow> int \<Rightarrow> int option" where
  "first_event e method t_reg =
     (case map fst (filter (\<lambda>ev. snd ev = method \<and> t_reg \<le> fst ev) (browser_events e)) of
        [] \<Rightarrow> None
      | t # ts \<Rightarrow> Some (fold min ts t))"

definition waitEvent :: "env \<Rightarrow> world \<Rightarrow> string \<Rightarrow> int \<Rightarrow> int \<Rightarrow> bool \<times> world" where
  "waitEvent e w method t_reg deadline =
     (case select (pick e (now w)) (now w + remainingTime w deadline)
             [(Recv, map_option (max (now w)) (first_event e method t_reg))] of
        (c, t) \<Rightarrow> (c = Recv, w\<lparr>now := t\<rparr>))"

text \<open>The closure \<open>cleanupListeners\<close> (263-273, 428-438); a nil channel is \<open>None\<close>.\<close>

definition cleanupListeners :: "chan option \<Rightarrow> chan option \<Rightarrow> chan option \<Rightarrow> world \<Rightarrow> world" where
  "cleanupListeners navStartedCh domContentLoadedCh loadCh w =
     (let w1 = (case navStartedCh of
                  Some ch \<Rightarrow> removeEventListener w ''browsingContext.navigationStarted'' ch
                | None \<Rightarrow> w);
          w2 = (case domContentLoadedCh of
                  Some ch \<Rightarrow> removeEventListener w1 ''browsingContext.domContentLoaded'' ch
                | None \<Rightarrow> w1)
      in (case loadCh of
            Some ch \<Rightarrow> removeEventListener w2 ''browsingContext.load'' ch
          | None \<Rightarrow> w2))"

text \<open>
  The registration of the listeners (250-260, 415-425): the three channels and the world
  after the registrations.
\<close>

definition setupListeners :: "string \<Rightarrow> world \<Rightarrow> (chan option \<times> chan option \<times> chan option) \<times> world" where
  "setupListeners waitBehavior w =
     (let (navStartedCh, w1) =
            (if waitBehavior \<noteq> ''none''
             then (case addEventListener w ''browsingContext.navigationStarted'' of
                     (ch, w') \<Rightarrow> (Some ch, w'))
             else (None, w));
          (domContentLoadedCh, w2) =
            (if waitBehavior = ''waitForDomContentLoaded''
             then (case addEventListener w1 ''browsingContext.domContentLoaded'' of
                     (ch, w') \<Rightarrow> (Some ch, w'))
             else (None, w1));
          (loadCh, w3) =
            (if waitBehavior = ''waitForLoad''
             then (case addEventListener w2 ''browsingContext.load'' of
                     (ch, w') \<Rightarrow> (Some ch, w'))
             else (None, w2))
      in ((navStartedCh, domContentLoadedCh, loadCh), w3))"

text \<open>
  The waits after the action (283-314, 448-479): \<open>Inl\<close> the message of the stage that
  timed out.
\<close>

definition waitStages :: "env \<Rightarrow> string \<Rightarrow> int \<Rightarrow> int \<Rightarrow> int \<Rightarrow> world \<Rightarrow> (string + unit) \<times> world" where
  "waitStages e waitBehavior timeout deadline t_reg w =
     (if waitBehavior \<noteq> ''none'' then
        (case waitEvent e w ''browsingContext.navigationStarted'' t_reg deadline of
           (False, w1) \<Rightarrow>
             (Inl (''timeout after '' @ durationString timeout @ '' waiting for navigation to start''), w1)
         | (True, w1) \<Rightarrow>
             if waitBehavior = ''waitForDomContentLoaded'' then
               (case waitEvent e w1 ''browsingContext.domContentLoaded'' t_reg deadline of
                  (False, w2) \<Rightarrow>
                    (Inl (''timeout after '' @ durationString timeout @ '' waiting for DOMContentLoaded''), w2)
                | (True, w2) \<Rightarrow> (Inr (), w2))
             else if waitBehavior = ''waitForLoad'' then
               (case waitEvent e w1 ''browsingContext.load'' t_reg deadline of
                  (False, w2) \<Rightarrow>
                    (Inl (''timeout after '' @ durationString timeout @ '' waiting for page load''), w2)
                | (True, w2) \<Rightarrow> (Inr (), w2))
             else (Inr (), w1))
      else (Inr (), w))"

text \<open>
  The part that \<open>handleVibiumClick\<close> (249-319) and \<open>handleVibiumType\<close> (414-484) have in
  common word for word: register the listeners, send \<open>input.performActions\<close> with the
  given params, wait, clean up, answer.
\<close>

definition performAndWait ::
    "env \<Rightarrow> world \<Rightarrow> int \<Rightarrow> string \<Rightarrow> int \<Rightarrow> int \<Rightarrow> json \<Rightarrow> json \<Rightarrow> world" where
  "performAndWait e w cmdID waitBehavior timeout deadline params result =
     (case setupListeners waitBehavior w of
        ((navStartedCh, domContentLoadedCh, loadCh), w1) \<Rightarrow>
          (case sendInternalCommand e w1 ''input.performActions'' params of
             (Inl err, w2) \<Rightarrow>
               sendError (cleanupListeners navStartedCh domContentLoadedCh loadCh w2) cmdID err
           | (Inr resp, w2) \<Rightarrow>
               (case waitStages e waitBehavior timeout deadline (now w) w2 of
                  (Inl err, w3) \<Rightarrow>
                    sendError (cleanupListeners navStartedCh domContentLoadedCh loadCh w3) cmdID err
                | (Inr u, w3) \<Rightarrow>
                    sendSuccess (cleanupListeners navStartedCh domContentLoadedCh loadCh w3) cmdID result)))"

text \<open>The timeout of a command (193-196, 333-336, 493-496).\<close>

definition commandTimeout :: "bidiCommand \<Rightarrow> int" where
  "commandTimeout cmd =
     (let timeoutMs = param_float64 cmd ''timeout''
      in if timeoutMs > 0 then duration_of_ms timeoutMs else defaultTimeout)"

text \<open>The context of a command (211-218, 351-358, 499-506).\<close>

definition resolveContext :: "env \<Rightarrow> world \<Rightarrow> bidiCommand \<Rightarrow> (string + string) \<times> world" where
  "resolveContext e w cmd =
     (let context = param_string cmd ''context''
      in if context = [] then getContext e w else (Inr context, w))"

text \<open>\<open>handleVibiumClick\<close> (184-320).\<close>

definition handleVibiumClick :: "env \<Rightarrow> world \<Rightarrow> bidiCommand \<Rightarrow> world" where
  "handleVibiumClick e w cmd =
     (let selector = param_string cmd ''selector'';
          wb = param_string cmd ''waitBehavior'';
          waitBehavior = (if wb = [] then ''waitForLoad'' else wb);
          timeout = commandTimeout cmd;
          deadline = now w + timeout
      in case resolveContext e w cmd of
           (Inl err, w1) \<Rightarrow> sendError w1 (cmd_ID cmd) err
         | (Inr context, w1) \<Rightarrow>
             (case waitForElement e w1 context selector (remainingTime w1 deadline) of
                (Inl err, w2) \<Rightarrow> sendError w2 (cmd_ID cmd) err
              | (Inr info, w2) \<Rightarrow>
                  performAndWait e w2 (cmd_ID cmd) waitBehavior timeout deadline
                    (clickParams context (pointerX e info) (pointerY e info))
                    (JObj [(''clicked'', JBool True)])))"

text \<open>\<open>handleVibiumType\<close> (323-485).\<close>

definition handleVibiumType :: "env \<Rightarrow> world \<Rightarrow> bidiCommand \<Rightarrow> world" where
  "handleVibiumType e w cmd =
     (let selector = param_string cmd ''selector'';
          text = param_string cmd ''text'';
          wb = param_string cmd ''waitBehavior'';
          waitBehavior = (if wb = [] then ''none'' else wb);
          timeout = commandTimeout cmd;
          deadline = now w + timeout
      in case resolveContext e w cmd of
           (Inl err, w1) \<Rightarrow> sendError w1 (cmd_ID cmd) err
         | (Inr context, w1) \<Rightarrow>
             (case waitForElement e w1 context selector (remainingTime w1 deadline) of
                (Inl err, w2) \<Rightarrow> sendError w2 (cmd_ID cmd) err
              | (Inr info, w2) \<Rightarrow>
                  (case sendInternalCommand e w2 ''input.performActions''
                          (clickParams context (pointerX e info) (pointerY e info)) of
                     (Inl err, w3) \<Rightarrow> sendError w3 (cmd_ID cmd) err
                   | (Inr resp, w3) \<Rightarrow>
                       performAndWait e w3 (cmd_ID cmd) waitBehavior timeout deadline
                         (typeParams e context text)
                         (JObj [(''typed'', JBool True)]))))"

text \<open>\<open>handleVibiumFind\<close> (488-525).\<close>

definition handleVibiumFind :: "env \<Rightarrow> world \<Rightarrow> bidiCommand \<Rightarrow> world" where
  "handleVibiumFind e w cmd =
     (let selector = param_string cmd ''selector'';
          timeout = commandTimeout cmd
      in case resolveContext e w cmd of
           (Inl err, w1) \<Rightarrow> sendError w1 (cmd_ID cmd) err
         | (Inr context, w1) \<Rightarrow>
             (case waitForElement e w1 context selector timeout of
                (Inl err, w2) \<Rightarrow> sendError w2 (cmd_ID cmd) err
              | (Inr info, w2) \<Rightarrow>
                  sendSuccess w2 (cmd_ID cmd)
                    (JObj [(''tag'', JStr (info_Tag info)),
                           (''text'', JStr (info_Text info)),
                           (''box'', JObj [(''x'', JNum (box_X (info_Box info))),
                                           (''y'', JNum (box_Y (info_Box info))),
                                           (''width'', JNum (box_Width (info_Box info))),
                                           (''height'', JNum (box_Height (info_Box info)))])])))"

subsection \<open>The router\<close>

type_synonym Router = "nat \<rightharpoonup> world"

text \<open>
  \<open>OnClientConnect\<close> (74-134). \<open>launch\<close>, \<open>connect\<close> and \<open>subscribe\<close> are the results of
  \<open>browser.Launch\<close>, \<open>bidi.Connect\<close> and \<open>SessionSubscribe\<close>, \<open>Inl\<close> the error;
  \<open>bidiClient\<close> is the client that \<open>bidi.NewClient\<close> returns and \<open>t0\<close> the instant of the
  call. The result is the calls made on the client and the launch result before a
  session exists, and the router. \<open>newSession\<close> is the struct literal (105-114).
\<close>

definition newSession :: "handle \<Rightarrow> handle \<Rightarrow> handle \<Rightarrow> nat \<Rightarrow> BrowserSession" where
  "newSession launchResult bidiConn bidiClient client =
     \<lparr>LaunchResult = Some launchResult, BidiConn = Some bidiConn, BidiClient = Some bidiClient,
      Client = client, closed = False, stopChan = False, internalCmds = Map.empty,
      nextInternalID = 1000000, navigationSubscriptionID = [],
      eventListeners = (\<lambda>method. [])\<rparr>"

definition navigationEvents :: "string list" where
  "navigationEvents = [''browsingContext.navigationStarted'', ''browsingContext.domContentLoaded'',
                       ''browsingContext.load'']"

definition OnClientConnect ::
    "(string + handle) \<Rightarrow> (string + handle) \<Rightarrow> handle \<Rightarrow> (string + string) \<Rightarrow> int
      \<Rightarrow> Router \<Rightarrow> nat \<Rightarrow> action list \<times> Router" where
  \<open>OnClientConnect launch connect bidiClient subscribe t0 r client =
     (case launch of
        Inl err \<Rightarrow>
          ([ClientSend (''{"error":{"code":-32000,"message":"Failed to launch browser: '' @ err @ ''"}}''),
            ClientClose], r)
      | Inr launchResult \<Rightarrow>
          (case connect of
             Inl err \<Rightarrow>
               ([LaunchResultClose,
                 ClientSend (''{"error":{"code":-32000,"message":"Failed to connect to browser: '' @ err @ ''"}}''),
                 ClientClose], r)
           | Inr bidiConn \<Rightarrow>
               (let session = newSession launchResult bidiConn bidiClient client;
                    session' = (case subscribe of
                                  Inl err \<Rightarrow> session
                                | Inr subscription \<Rightarrow> session\<lparr>navigationSubscriptionID := subscription\<rparr>)
                in ([], r(client \<mapsto>
                          \<lparr>sess = session',
                           chans = (\<lambda>ch. \<lparr>buf = [], cap = 0, ch_closed = False\<rparr>),
                           nextChan = 0, now = t0,
                           log = [SessionSubscribe navigationEvents]\<rparr>)))))\<close>


text \<open>\<open>OnClientDisconnect\<close> (676-684): the session taken out of the map and closed.\<close>

definition OnClientDisconnect :: "bidi_env \<Rightarrow> Router \<Rightarrow> nat \<Rightarrow> (bool \<times> world) option \<times> Router" where
  "OnClientDisconnect b r client =
     (case r client of
        None \<Rightarrow> (None, r)
      | Some w \<Rightarrow> (Some (closeSession b w), r(client := None)))"

subsection \<open>The Correlator\<close>

text \<open>
  One turn of the loop of \<open>routeBrowserToClient\<close> (688-753) on what \<open>BidiConn.Receive\<close>
  returns, \<open>Inl\<close> its error. The turn ends the loop (\<open>Return\<close>), goes on to the next
  turn (\<open>Continue\<close>), stays in the blocking send \<open>ch <- msg\<close> of line 723 because the
  buffer is full (\<open>Blocked\<close>), or panics on a send to a closed channel (\<open>Panic\<close>).
\<close>

datatype route_status = Continue | Return | Blocked | Panic

definition chan_put :: "chan \<Rightarrow> string \<Rightarrow> world \<Rightarrow> world" where
  "chan_put ch msg w = w\<lparr>chans := (chans w)(ch := (chans w ch)\<lparr>buf := buf (chans w ch) @ [msg]\<rparr>)\<rparr>"

text \<open>The non-blocking sends to the copied listeners (738-744); \<open>None\<close> is a panic.\<close>

fun dispatch :: "chan list \<Rightarrow> string \<Rightarrow> world \<Rightarrow> world option" where
  "dispatch [] msg w = Some w"
| "dispatch (ch # chs) msg w =
     (if ch_closed (chans w ch) then None
      else dispatch chs msg
             (if length (buf (chans w ch)) < cap (chans w ch) then chan_put ch msg w else w))"

text \<open>The lookup of lines 716-719: the reply channel when the frame answers an internal command.\<close>

definition internalTarget :: "env \<Rightarrow> world \<Rightarrow> string \<Rightarrow> chan option" where
  "internalTarget e w msg =
     (case decode_frame e msg of
        Some (Some i, method) \<Rightarrow> if i > 0 then internalCmds (sess w) i else None
      | _ \<Rightarrow> None)"

definition routeBrowserToClient_step :: "env \<Rightarrow> world \<Rightarrow> string + string \<Rightarrow> route_status \<times> world" where
  "routeBrowserToClient_step e w received =
     (if stopChan (sess w) then (Return, w)
      else case received of
        Inl err \<Rightarrow> (Return, if \<not> closed (sess w) then emit ClientClose w else w)
      | Inr msg \<Rightarrow>
          (case internalTarget e w msg of
             Some ch \<Rightarrow>
               if ch_closed (chans w ch) then (Panic, w)
               else if length (buf (chans w ch)) < cap (chans w ch) then (Continue, chan_put ch msg w)
               else (Blocked, w)
           | None \<Rightarrow>
               (case (case decode_frame e msg of
                        Some (None, method) \<Rightarrow>
                          if method \<noteq> [] then dispatch (eventListeners (sess w) method) msg w
                          else Some w
                      | _ \<Rightarrow> Some w) of
                  None \<Rightarrow> (Panic, w)
                | Some w1 \<Rightarrow>
                    (case client_send_error e msg of
                       None \<Rightarrow> (Continue, emit (ClientSend msg) w1)
                     | Some err \<Rightarrow> (Return, emit (ClientSend msg) w1)))))"

subsection \<open>Invariants of a session\<close>

text \<open>
  Every pending internal id lies between the first internal id and the counter, and the
  channels in the maps of the session were made before the next channel to be made.
\<close>

definition ids_inv :: "world \<Rightarrow> bool" where
  "ids_inv w \<longleftrightarrow>
     1000000 \<le> nextInternalID (sess w) \<and>
     (\<forall>i. i \<in> dom (internalCmds (sess w)) \<longrightarrow> 1000000 \<le> i \<and> i < nextInternalID (sess w))"

definition listeners_fresh :: "world \<Rightarrow> bool" where
  "listeners_fresh w \<longleftrightarrow> (\<forall>method ch. ch \<in> set (eventListeners (sess w) method) \<longrightarrow> ch < nextChan w)"

subsection \<open>Reference points for the statements\<close>




text \<open>
  The session of client 7 right after a successful \<open>OnClientConnect\<close> at instant 0 whose
  subscription is \<open>sub-1\<close>.
\<close>

definition connected :: world where
  "connected = the (snd (OnClientConnect (Inr 1) (Inr 2) 3 (Inr ''sub-1'') 0 Map.empty 7) 7)"

text \<open>
  Two unsubscriptions with command id 9. In \<open>answered\<close> this caller reads a load event
  and then the response to its command. In \<open>unanswered\<close> it reads the load event and
  nothing more: the response went to the Correlator, or the browser sent none.
\<close>

definition answered :: bidi_env where
  "answered =
     \<lparr>next_id = 9, conn_send_error = None,
      receive_results = [Inr ''{method:browsingContext.load,params:{}}'', Inr ''{id:9,result:{}}''],
      decode_message = (\<lambda>frame. if frame = ''{id:9,result:{}}''
                                  then Inr \<lparr>msg_ID = Some 9, msg_Error = [], msg_Method = []\<rparr>
                                  else Inr \<lparr>msg_ID = None, msg_Error = [],
                                           msg_Method = ''browsingContext.load''\<rparr>),
      decode_error = (\<lambda>err. None)\<rparr>"


text \<open>
  The world that \<open>sendInternalCommand\<close> leaves when it returns at instant \<open>t\<close>: the counter
  moved on, the id no longer pending, one channel made, one command written.
\<close>

definition sent :: "world \<Rightarrow> string \<Rightarrow> json \<Rightarrow> int \<Rightarrow> world" where
  "sent w method params t =
     w\<lparr>sess := (sess w)\<lparr>nextInternalID := wrap64 (nextInternalID (sess w) + 1),
                         internalCmds := (internalCmds (sess w))(nextInternalID (sess w) := None)\<rparr>,
       chans := (chans w)(nextChan w := \<lparr>buf = [], cap = 1, ch_closed = False\<rparr>),
       nextChan := Suc (nextChan w),
       now := t,
       log := log w @ [BidiSendCmd (nextInternalID (sess w)) method params]\<rparr>"

text \<open>
  A quiet environment: every write succeeds, the browser never replies and emits no
  event, the session is never stopped, a \<open>select\<close> takes the first ready case, nothing
  decodes, a string has one rune per byte, and float64 arithmetic is exact.
\<close>

definition quiet :: env where
  "quiet = \<lparr>send_error = (\<lambda>i. None), reply = (\<lambda>i. None), stop_at = None, browser_events = [],
            pick = (\<lambda>t cs. hd cs), client_send_error = (\<lambda>msg. None),
            decode_command = (\<lambda>msg. None), decode_frame = (\<lambda>msg. None),
            decode_getTree = (\<lambda>msg. Inl ''unexpected end of JSON input''),
            decode_callFunction = (\<lambda>msg. None), decode_elementInfo = (\<lambda>msg. None),
            runes_of = map (\<lambda>c. [c]), round64 = (\<lambda>x. x)\<rparr>"

text \<open>
  An error reply carries the code \<open>timeout\<close>; any other call counts as well coded.
\<close>

definition timeout_coded :: "action \<Rightarrow> bool" where
  "timeout_coded a =
     (case a of
        ClientSendJSON r \<Rightarrow>
          (if resp_Type r = ''error''
           then (case resp_Error r of Some er \<Rightarrow> err_Error er = ''timeout'' | None \<Rightarrow> False)
           else True)
      | _ \<Rightarrow> True)"

text \<open>The calls logged between two worlds, the second reached from the first.\<close>

definition new_calls :: "world \<Rightarrow> world \<Rightarrow> action list" where
  "new_calls w w' = drop (length (log w)) (log w')"

text \<open>\<open>extended w w'\<close>: from \<open>w\<close> to \<open>w'\<close> the log was only extended, by well coded calls.\<close>

definition extended :: "world \<Rightarrow> world \<Rightarrow> bool" where
  "extended w w' \<longleftrightarrow>
     take (length (log w)) (log w') = log w \<and> list_all timeout_coded (new_calls w w')"

text \<open>
  \<open>steady w w'\<close>: moreover the registry of listeners is the same and channels were only
  made.
\<close>

definition steady :: "world \<Rightarrow> world \<Rightarrow> bool" where
  "steady w w' \<longleftrightarrow>
     eventListeners (sess w') = eventListeners (sess w) \<and> nextChan w \<le> nextChan w' \<and>
     extended w w'"





text \<open>
  What is said of a wait policy that is not recognised, written out with the
  operations of the registry: register the listener for
  \<open>browsingContext.navigationStarted\<close> and no other, send the action, wait for that one
  event until the deadline, remove the listener, answer.
\<close>

definition navigationStarted_only ::
    "env \<Rightarrow> world \<Rightarrow> int \<Rightarrow> int \<Rightarrow> int \<Rightarrow> json \<Rightarrow> json \<Rightarrow> world" where
  "navigationStarted_only e w cmdID timeout deadline params result =
     (case addEventListener w ''browsingContext.navigationStarted'' of
        (ch, w1) \<Rightarrow>
          (case sendInternalCommand e w1 ''input.performActions'' params of
             (Inl err, w2) \<Rightarrow>
               sendError (removeEventListener w2 ''browsingContext.navigationStarted'' ch) cmdID err
           | (Inr resp, w2) \<Rightarrow>
               (case waitEvent e w2 ''browsingContext.navigationStarted'' (now w) deadline of
                  (False, w3) \<Rightarrow>
                    sendError (removeEventListener w3 ''browsingContext.navigationStarted'' ch) cmdID
                      (''timeout after '' @ durationString timeout @ '' waiting for navigation to start'')
                | (True, w3) \<Rightarrow>
                    sendSuccess (removeEventListener w3 ''browsingContext.navigationStarted'' ch) cmdID
                      result)))"



section \<open>Basic facts\<close>

lemma emit_simps [simp]:
  "sess (emit a w) = sess w" "chans (emit a w) = chans w" "nextChan (emit a w) = nextChan w"
  "now (emit a w) = now w" "log (emit a w) = log w @ [a]"
  by (simp_all add: emit_def)

lemma sendError_simps [simp]:
  "sess (sendError w i m) = sess w" "chans (sendError w i m) = chans w" "nextChan (sendError w i m) = nextChan w"
  "now (sendError w i m) = now w"
  by (simp_all add: sendError_def)

lemma sendSuccess_simps [simp]:
  "sess (sendSuccess w i m) = sess w" "chans (sendSuccess w i m) = chans w" "nextChan (sendSuccess w i m) = nextChan w"
  "now (sendSuccess w i m) = now w"
  by (simp_all add: sendSuccess_def)

subsection \<open>select\<close>

lemma fold_min_le: "fold (\<lambda>r m. min (snd r) m) rs m \<le> (m::int)"
proof (induction rs arbitrary: m)
  case Nil
  then show ?case by simp
next
  case (Cons a rs)
  have "fold (\<lambda>r m. min (snd r) m) rs (min (snd a) m) \<le> min (snd a) m" by (rule Cons)
  then show ?case by simp
qed

lemma fold_min_le_elem: "r \<in> set rs \<Longrightarrow> fold (\<lambda>r m. min (snd r) m) rs m \<le> (snd r :: int)"
proof (induction rs arbitrary: m)
  case Nil
  then show ?case by simp
next
  case (Cons a rs)
  then show ?case
    using fold_min_le [of rs "min (snd a) m"] by auto
qed

lemma fold_min_attained:
  "fold (\<lambda>r m. min (snd r) m) rs m = (m::int) \<or> fold (\<lambda>r m. min (snd r) m) rs m \<in> snd ` set rs"
proof (induction rs arbitrary: m)
  case Nil
  then show ?case by simp
next
  case (Cons a rs)
  from Cons [of "min (snd a) m"] show ?case
    by (auto simp: min_def split: if_splits)
qed

lemma select_sound:
  assumes "select pk tm alts = (c, t)"
  shows "(c, t) \<in> set (ready_cases alts) \<or> (c = Timer \<and> t = tm)"
    and "t \<le> tm"
    and "\<forall>r \<in> set (ready_cases alts). t \<le> snd r"
proof -
  define rs where "rs = ready_cases alts @ [(Timer, tm)]"
  define t' where "t' = fold (\<lambda>r m. min (snd r) m) rs tm"
  define cands where "cands = map fst (filter (\<lambda>r. snd r = t') rs)"
  from assms have "(if pk cands \<in> set cands then pk cands else hd cands, t') = (c, t)"
    unfolding select_def Let_def rs_def t'_def cands_def .
  then have t: "t = t'" and c: "c = (if pk cands \<in> set cands then pk cands else hd cands)"
    by blast+
  have "tm \<in> snd ` set rs" by (force simp: rs_def)
  with fold_min_attained [of rs tm] have "t' \<in> snd ` set rs"
    unfolding t'_def by auto
  then obtain r0 where r0: "r0 \<in> set rs" "snd r0 = t'" by auto
  then have "fst r0 \<in> set cands" by (auto simp: cands_def)
  then have "cands \<noteq> []" by auto
  then have "c \<in> set cands" using c by simp
  then obtain r where r: "r \<in> set rs" "snd r = t'" "fst r = c" by (auto simp: cands_def)
  with t show "(c, t) \<in> set (ready_cases alts) \<or> (c = Timer \<and> t = tm)"
    by (cases r) (auto simp: rs_def)
  show "t \<le> tm" unfolding t t'_def by (rule fold_min_le)
  show "\<forall>r \<in> set (ready_cases alts). t \<le> snd r"
    unfolding t t'_def using fold_min_le_elem [of _ rs tm] by (auto simp: rs_def)
qed

subsection \<open>Internal commands\<close>

lemma stop_ready_ge: "stop_ready e w = Some t \<Longrightarrow> now w \<le> t"
  by (auto simp: stop_ready_def split: if_splits)

lemma awaitInternal_result:
  "(\<exists>r. reply e i = Some r \<and> int (fst r) \<le> 60 * Second
        \<and> awaitInternal e w i m = (Inr (snd r), w\<lparr>now := now w + int (fst r)\<rparr>))
   \<or> awaitInternal e w i m
        = (Inl (''timeout waiting for response to '' @ m), w\<lparr>now := now w + 60 * Second\<rparr>)
   \<or> (\<exists>t. stop_ready e w = Some t \<and> t \<le> now w + 60 * Second
        \<and> awaitInternal e w i m = (Inl ''session closed'', w\<lparr>now := t\<rparr>))"
proof -
  let ?alts = "[(Recv, map_option (\<lambda>r. now w + int (fst r)) (reply e i)), (Stop, stop_ready e w)]"
  obtain c t where ct: "select (pick e (now w)) (now w + 60 * Second) ?alts = (c, t)"
    by (cases "select (pick e (now w)) (now w + 60 * Second) ?alts")
  note s = select_sound [OF ct]
  have aw: "awaitInternal e w i m =
     (case (c, t) of
           (Recv, t) \<Rightarrow> (case reply e i of
                           Some r \<Rightarrow> (Inr (snd r), w\<lparr>now := t\<rparr>)
                         | None \<Rightarrow> (Inl (''timeout waiting for response to '' @ m), w\<lparr>now := t\<rparr>))
         | (Timer, t) \<Rightarrow> (Inl (''timeout waiting for response to '' @ m), w\<lparr>now := t\<rparr>)
         | (Stop, t) \<Rightarrow> (Inl ''session closed'', w\<lparr>now := t\<rparr>))"
    using ct by (simp add: awaitInternal_def Let_def)
  from s(1) consider (recv) r where "reply e i = Some r" "c = Recv" "t = now w + int (fst r)"
    | (stop) "stop_ready e w = Some t" "c = Stop"
    | (timer) "c = Timer" "t = now w + 60 * Second"
    by (cases "reply e i"; cases "stop_ready e w") auto
  then show ?thesis
  proof cases
    case recv
    with s(2) aw show ?thesis by simp
  next
    case stop
    with s(2) aw show ?thesis by simp
  next
    case timer
    with aw show ?thesis by simp
  qed
qed

lemma sendInternalCommand_result:
  "(\<exists>err. send_error e (nextInternalID (sess w)) = Some err
        \<and> sendInternalCommand e w m p = (Inl err, sent w m p (now w)))
   \<or> (send_error e (nextInternalID (sess w)) = None \<and>
       ((\<exists>r. reply e (nextInternalID (sess w)) = Some r \<and> int (fst r) \<le> 60 * Second
            \<and> sendInternalCommand e w m p = (Inr (snd r), sent w m p (now w + int (fst r))))
        \<or> sendInternalCommand e w m p
             = (Inl (''timeout waiting for response to '' @ m), sent w m p (now w + 60 * Second))
        \<or> (\<exists>t. stop_ready e w = Some t \<and> t \<le> now w + 60 * Second
            \<and> sendInternalCommand e w m p = (Inl ''session closed'', sent w m p t))))"
proof -
  let ?i = "nextInternalID (sess w)"
  define w1 where "w1 = snd (snd (registerInternal w))"
  let ?w2 = "emit (BidiSendCmd ?i m p) w1"
  have reg: "registerInternal w = (?i, nextChan w, w1)"
    by (simp add: registerInternal_def Let_def w1_def)
  have un: "unregisterInternal ?i (?w2\<lparr>now := t\<rparr>) = sent w m p t" for t
    by (simp add: unregisterInternal_def registerInternal_def emit_def sent_def Let_def w1_def)
  have un0: "unregisterInternal ?i ?w2 = sent w m p (now w)"
    by (simp add: unregisterInternal_def registerInternal_def emit_def sent_def Let_def w1_def)
  have now2: "now ?w2 = now w" by (simp add: registerInternal_def Let_def w1_def)
  have stop2: "stop_ready e ?w2 = stop_ready e w"
    by (simp add: stop_ready_def registerInternal_def Let_def emit_def w1_def)
  show ?thesis
  proof (cases "send_error e ?i")
    case (Some err)
    then show ?thesis
      using reg un0 by (simp add: sendInternalCommand_def Let_def)
  next
    case None
    have sic: "sendInternalCommand e w m p =
        (fst (awaitInternal e ?w2 ?i m), unregisterInternal ?i (snd (awaitInternal e ?w2 ?i m)))"
      using None reg by (simp add: sendInternalCommand_def Let_def split: prod.splits)
    from awaitInternal_result [of e ?i ?w2 m] show ?thesis
      unfolding now2 stop2
      using None sic un by (elim disjE exE conjE) simp_all
  qed
qed

subsection \<open>Teardown\<close>

lemma connected_eq:
  "connected = \<lparr>sess = \<lparr>LaunchResult = Some 1, BidiConn = Some 2, BidiClient = Some 3, Client = 7,
                        closed = False, stopChan = False, internalCmds = Map.empty,
                        nextInternalID = 1000000, navigationSubscriptionID = ''sub-1'',
                        eventListeners = (\<lambda>method. [])\<rparr>,
                chans = (\<lambda>ch. \<lparr>buf = [], cap = 0, ch_closed = False\<rparr>),
                nextChan = 0, now = 0, log = [SessionSubscribe navigationEvents]\<rparr>"
  by (simp add: connected_def OnClientConnect_def newSession_def)






lemma answered_result: "SessionUnsubscribeByID_result answered = Some None"
  by (simp add: SessionUnsubscribeByID_result_def SendCommand_def answered_def)


lemma closed_connected:
  "snd (closeSession answered connected)
   = connected\<lparr>sess := (sess connected)\<lparr>closed := True, stopChan := True\<rparr>,
               log := [SessionSubscribe navigationEvents, SessionUnsubscribeByID [''sub-1''],
                       CloseStopChan, BidiConnClose, LaunchResultClose]\<rparr>"
  by (simp add: closeSession_def answered_result Let_def emit_def connected_eq)




text \<open>
  C6. \<open>sendInternalCommand\<close> takes the counter's value as id, registers a reply channel
  for it and calls \<open>BidiConn.Send\<close> with the command; when it returns the id is no
  longer pending, the command is the one call added to the log, and nothing else of the
  session has changed. If the write fails, it returns the write's error at once. If
  the write succeeds, it returns at the earliest instant at which the reply is in the
  channel, 60 seconds have passed, or \<open>stopChan\<close> is closed, and not before; the result
  is the reply when it returns at the reply's instant, the timeout error when it
  returns at 60 seconds, the session-closed error when it returns at the instant of the
  stop, and no other result is possible. The three results differ from each other.
\<close>

theorem sendInternalCommand_outcomes:
  "internalCmds (sess (snd (snd (registerInternal w)))) (nextInternalID (sess w)) = Some (nextChan w)
   \<and> (\<exists>t. snd (sendInternalCommand e w m p) = sent w m p t)
   \<and> internalCmds (sess (snd (sendInternalCommand e w m p))) (nextInternalID (sess w)) = None
   \<and> log (snd (sendInternalCommand e w m p)) = log w @ [BidiSendCmd (nextInternalID (sess w)) m p]
   \<and> (\<forall>err. send_error e (nextInternalID (sess w)) = Some err \<longrightarrow>
         sendInternalCommand e w m p = (Inl err, sent w m p (now w)))
   \<and> (send_error e (nextInternalID (sess w)) = None \<longrightarrow>
         now w \<le> now (snd (sendInternalCommand e w m p))
         \<and> now (snd (sendInternalCommand e w m p)) \<le> now w + 60 * Second
         \<and> (\<forall>r. reply e (nextInternalID (sess w)) = Some r \<longrightarrow>
                now (snd (sendInternalCommand e w m p)) \<le> now w + int (fst r))
         \<and> (\<forall>ts. stop_ready e w = Some ts \<longrightarrow> now (snd (sendInternalCommand e w m p)) \<le> ts)
         \<and> ((\<exists>r. reply e (nextInternalID (sess w)) = Some r
                 \<and> now (snd (sendInternalCommand e w m p)) = now w + int (fst r)
                 \<and> fst (sendInternalCommand e w m p) = Inr (snd r))
            \<or> (now (snd (sendInternalCommand e w m p)) = now w + 60 * Second
                 \<and> fst (sendInternalCommand e w m p) = Inl (''timeout waiting for response to '' @ m))
            \<or> (stop_ready e w = Some (now (snd (sendInternalCommand e w m p)))
                 \<and> fst (sendInternalCommand e w m p) = Inl ''session closed'')))
   \<and> ''timeout waiting for response to '' @ m \<noteq> ''session closed''"
proof -
  let ?i = "nextInternalID (sess w)"
  define w1 where "w1 = snd (snd (registerInternal w))"
  define w2 where "w2 = emit (BidiSendCmd ?i m p) w1"
  have reg: "registerInternal w = (?i, nextChan w, w1)"
    by (simp add: registerInternal_def Let_def w1_def)
  have un: "unregisterInternal ?i (w2\<lparr>now := t\<rparr>) = sent w m p t" for t
    by (simp add: unregisterInternal_def registerInternal_def emit_def sent_def Let_def w1_def w2_def)
  have un0: "unregisterInternal ?i w2 = sent w m p (now w)"
    by (simp add: unregisterInternal_def registerInternal_def emit_def sent_def Let_def w1_def w2_def)
  have now2: "now w2 = now w" by (simp add: registerInternal_def Let_def w1_def w2_def)
  have stop2: "stop_ready e w2 = stop_ready e w"
    by (simp add: stop_ready_def registerInternal_def Let_def emit_def w1_def w2_def)
  have sent_simps: "internalCmds (sess (sent w m p t)) ?i = None"
    "log (sent w m p t) = log w @ [BidiSendCmd ?i m p]" "now (sent w m p t) = t" for t
    by (simp_all add: sent_def)
  have 1: "internalCmds (sess (snd (snd (registerInternal w)))) ?i = Some (nextChan w)"
    by (simp add: registerInternal_def Let_def)
  have 7: "''timeout waiting for response to '' @ m \<noteq> ''session closed''"
    by simp
  show ?thesis
  proof (cases "send_error e ?i")
    case (Some err)
    then have "sendInternalCommand e w m p = (Inl err, sent w m p (now w))"
      using reg un0 by (simp add: sendInternalCommand_def Let_def w2_def)
    with Some 1 show ?thesis by (auto simp: sent_simps)
  next
    case None
    let ?alts = "[(Recv, map_option (\<lambda>r. now w2 + int (fst r)) (reply e ?i)), (Stop, stop_ready e w2)]"
    obtain c t where ct: "select (pick e (now w2)) (now w2 + 60 * Second) ?alts = (c, t)"
      by (cases "select (pick e (now w2)) (now w2 + 60 * Second) ?alts")
    note s = select_sound [OF ct]
    have aw: "awaitInternal e w2 ?i m =
       (case c of
           Recv \<Rightarrow> (case reply e ?i of
                           Some r \<Rightarrow> (Inr (snd r), w2\<lparr>now := t\<rparr>)
                         | None \<Rightarrow> (Inl (''timeout waiting for response to '' @ m), w2\<lparr>now := t\<rparr>))
         | Timer \<Rightarrow> (Inl (''timeout waiting for response to '' @ m), w2\<lparr>now := t\<rparr>)
         | Stop \<Rightarrow> (Inl ''session closed'', w2\<lparr>now := t\<rparr>))"
      using ct by (simp add: awaitInternal_def Let_def)
    have sic: "sendInternalCommand e w m p
        = (fst (awaitInternal e w2 ?i m), unregisterInternal ?i (snd (awaitInternal e w2 ?i m)))"
      using None reg by (simp add: sendInternalCommand_def Let_def w2_def split: prod.splits)
    have world: "snd (sendInternalCommand e w m p) = sent w m p t"
      unfolding sic aw by (cases c; cases "reply e ?i") (simp_all add: un)
    have lo: "now w \<le> t"
    proof -
      have "\<forall>r \<in> set (ready_cases ?alts). now w \<le> snd r"
        using stop_ready_ge [of e w] by (cases "reply e ?i"; cases "stop_ready e w") (auto simp: now2 stop2)
      moreover have "now w \<le> now w2 + 60 * Second" by (simp add: now2 Second_def)
      ultimately show ?thesis using s(1) by auto
    qed
    have hi: "t \<le> now w + 60 * Second" using s(2) by (simp add: now2)
    have before_reply: "\<forall>r. reply e ?i = Some r \<longrightarrow> t \<le> now w + int (fst r)"
      using s(3) by (auto simp: now2)
    have before_stop: "\<forall>ts. stop_ready e w = Some ts \<longrightarrow> t \<le> ts"
      using s(3) by (cases "reply e ?i") (auto simp: stop2)
    from s(1) consider (recv) r where "reply e ?i = Some r" "c = Recv" "t = now w + int (fst r)"
      | (stop) "stop_ready e w = Some t" "c = Stop"
      | (timer) "c = Timer" "t = now w + 60 * Second"
      by (cases "reply e ?i"; cases "stop_ready e w") (auto simp: now2 stop2)
    then have which: "(\<exists>r. reply e ?i = Some r \<and> t = now w + int (fst r)
                 \<and> fst (sendInternalCommand e w m p) = Inr (snd r))
            \<or> (t = now w + 60 * Second
                 \<and> fst (sendInternalCommand e w m p) = Inl (''timeout waiting for response to '' @ m))
            \<or> (stop_ready e w = Some t
                 \<and> fst (sendInternalCommand e w m p) = Inl ''session closed'')"
    proof cases
      case recv
      then show ?thesis unfolding sic aw by simp
    next
      case stop
      then show ?thesis unfolding sic aw by simp
    next
      case timer
      then show ?thesis unfolding sic aw by simp
    qed
    have 2: "\<exists>t. snd (sendInternalCommand e w m p) = sent w m p t"
      using world by blast
    have 3: "internalCmds (sess (snd (sendInternalCommand e w m p))) ?i = None"
      unfolding world by (rule sent_simps)
    have 4: "log (snd (sendInternalCommand e w m p)) = log w @ [BidiSendCmd ?i m p]"
      unfolding world by (rule sent_simps)
    have 5: "\<forall>err. send_error e ?i = Some err \<longrightarrow>
         sendInternalCommand e w m p = (Inl err, sent w m p (now w))"
      using None by simp
    have nw: "now (snd (sendInternalCommand e w m p)) = t"
      unfolding world by (rule sent_simps)
    have 6: "send_error e ?i = None \<longrightarrow>
         now w \<le> now (snd (sendInternalCommand e w m p))
         \<and> now (snd (sendInternalCommand e w m p)) \<le> now w + 60 * Second
         \<and> (\<forall>r. reply e ?i = Some r \<longrightarrow>
                now (snd (sendInternalCommand e w m p)) \<le> now w + int (fst r))
         \<and> (\<forall>ts. stop_ready e w = Some ts \<longrightarrow> now (snd (sendInternalCommand e w m p)) \<le> ts)
         \<and> ((\<exists>r. reply e ?i = Some r
                 \<and> now (snd (sendInternalCommand e w m p)) = now w + int (fst r)
                 \<and> fst (sendInternalCommand e w m p) = Inr (snd r))
            \<or> (now (snd (sendInternalCommand e w m p)) = now w + 60 * Second
                 \<and> fst (sendInternalCommand e w m p) = Inl (''timeout waiting for response to '' @ m))
            \<or> (stop_ready e w = Some (now (snd (sendInternalCommand e w m p)))
                 \<and> fst (sendInternalCommand e w m p) = Inl ''session closed''))"
      unfolding nw using lo hi before_reply before_stop which by blast
    show ?thesis
      by (rule conjI [OF 1 conjI [OF 2 conjI [OF 3 conjI [OF 4 conjI [OF 5 conjI [OF 6 7]]]]]])
  qed
qed

text \<open>
  The first internal command of the connected session in four environments. Answered
  after 5 milliseconds: the reply, at 5 milliseconds. Never answered: the timeout
  error, at 60 seconds. Never answered, with the session stopped at 2 seconds: the
  session-closed error, at 2 seconds. A failing write: the write's error, at once. Each
  time the command is written and its id is not pending afterwards.
\<close>

theorem sendInternalCommand_outcomes_witness:
  "send_error (quiet\<lparr>reply := (\<lambda>i. Some (5000000, ''{id:1000000,result:{}}''))\<rparr>)
      (nextInternalID (sess connected)) = None
   \<and> sendInternalCommand (quiet\<lparr>reply := (\<lambda>i. Some (5000000, ''{id:1000000,result:{}}''))\<rparr>)
        connected ''browsingContext.getTree'' (JObj [])
      = (Inr ''{id:1000000,result:{}}'', sent connected ''browsingContext.getTree'' (JObj []) 5000000)
   \<and> sendInternalCommand quiet connected ''browsingContext.getTree'' (JObj [])
      = (Inl ''timeout waiting for response to browsingContext.getTree'',
         sent connected ''browsingContext.getTree'' (JObj []) 60000000000)
   \<and> sendInternalCommand (quiet\<lparr>stop_at := Some 2000000000\<rparr>)
        connected ''browsingContext.getTree'' (JObj [])
      = (Inl ''session closed'', sent connected ''browsingContext.getTree'' (JObj []) 2000000000)
   \<and> sendInternalCommand (quiet\<lparr>send_error := (\<lambda>i. Some ''use of closed network connection'')\<rparr>)
        connected ''browsingContext.getTree'' (JObj [])
      = (Inl ''use of closed network connection'', sent connected ''browsingContext.getTree'' (JObj []) 0)
   \<and> internalCmds (sess (sent connected ''browsingContext.getTree'' (JObj []) 5000000)) 1000000 = None
   \<and> log (sent connected ''browsingContext.getTree'' (JObj []) 5000000)
      = [SessionSubscribe navigationEvents, BidiSendCmd 1000000 ''browsingContext.getTree'' (JObj [])]"
proof -
  let ?m = "''browsingContext.getTree''"
  let ?ea = "quiet\<lparr>reply := (\<lambda>i. Some (5000000, ''{id:1000000,result:{}}''))\<rparr>"
  let ?es = "quiet\<lparr>stop_at := Some 2000000000\<rparr>"
  let ?ef = "quiet\<lparr>send_error := (\<lambda>i. Some ''use of closed network connection'')\<rparr>"
  have c: "now connected = 0" "nextInternalID (sess connected) = 1000000"
    "log connected = [SessionSubscribe navigationEvents]"
    by (simp_all add: connected_eq)
  have q: "send_error ?ea 1000000 = None" "reply ?ea 1000000 = Some (5000000, ''{id:1000000,result:{}}'')"
    "stop_ready ?ea connected = None"
    "send_error quiet 1000000 = None" "reply quiet 1000000 = None" "stop_ready quiet connected = None"
    "send_error ?es 1000000 = None" "reply ?es 1000000 = None" "stop_ready ?es connected = Some 2000000000"
    "send_error ?ef 1000000 = Some ''use of closed network connection''"
    by (simp_all add: quiet_def stop_ready_def connected_eq)
  have eqI: "x = (a, sent connected ?m (JObj []) t)"
    if "\<exists>t'. snd x = sent connected ?m (JObj []) t'" "now (snd x) = t" "fst x = a"
    for x :: "(string + string) \<times> world" and a t
  proof -
    from that(1) obtain t' where t': "snd x = sent connected ?m (JObj []) t'" by blast
    then have "now (snd x) = t'" by (simp add: sent_def)
    with that(2) t' have "snd x = sent connected ?m (JObj []) t" by simp
    with that(3) show ?thesis by (cases x) simp
  qed
  note a = sendInternalCommand_outcomes [of connected ?ea ?m "JObj []"]
  note b = sendInternalCommand_outcomes [of connected quiet ?m "JObj []"]
  note s = sendInternalCommand_outcomes [of connected ?es ?m "JObj []"]
  note f = sendInternalCommand_outcomes [of connected ?ef ?m "JObj []"]
  have 1: "sendInternalCommand ?ea connected ?m (JObj [])
      = (Inr ''{id:1000000,result:{}}'', sent connected ?m (JObj []) 5000000)"
    using a unfolding c q by (intro eqI) (auto simp: Second_def)
  have 2: "sendInternalCommand quiet connected ?m (JObj [])
      = (Inl ''timeout waiting for response to browsingContext.getTree'',
         sent connected ?m (JObj []) 60000000000)"
    using b unfolding c q by (intro eqI) (auto simp: Second_def)
  have 3: "sendInternalCommand ?es connected ?m (JObj [])
      = (Inl ''session closed'', sent connected ?m (JObj []) 2000000000)"
    using s unfolding c q by (intro eqI) (auto simp: Second_def)
  have 4: "sendInternalCommand ?ef connected ?m (JObj [])
      = (Inl ''use of closed network connection'', sent connected ?m (JObj []) 0)"
    using f unfolding c q by simp
  have 5: "internalCmds (sess (sent connected ?m (JObj []) 5000000)) 1000000 = None"
    "log (sent connected ?m (JObj []) 5000000)
      = [SessionSubscribe navigationEvents, BidiSendCmd 1000000 ?m (JObj [])]"
    using a unfolding c q 1 by simp_all
  from q(1) have 0: "send_error ?ea (nextInternalID (sess connected)) = None"
    unfolding c .
  show ?thesis
    by (intro conjI 0 1 2 3 4 5)
qed

subsection \<open>What the operations leave alone\<close>

declare waitForElement_loop.simps [simp del]

lemma extended_iff:
  "extended w w' \<longleftrightarrow> (\<exists>xs. log w' = log w @ xs \<and> list_all timeout_coded xs)"
proof
  assume a: "extended w w'"
  then have "log w' = log w @ new_calls w w'"
    unfolding new_calls_def extended_def by (metis append_take_drop_id)
  with a show "\<exists>xs. log w' = log w @ xs \<and> list_all timeout_coded xs"
    unfolding extended_def by blast
next
  assume "\<exists>xs. log w' = log w @ xs \<and> list_all timeout_coded xs"
  then show "extended w w'"
    by (auto simp: new_calls_def extended_def)
qed

lemma extended_refl [simp]: "extended w w"
  by (simp add: extended_iff)

lemma extended_trans: "extended w w1 \<Longrightarrow> extended w1 w2 \<Longrightarrow> extended w w2"
  by (auto simp: extended_iff)

lemma extended_same_log: "log w' = log w \<Longrightarrow> extended w w'"
  by (simp add: extended_iff)

lemma steady_iff:
  "steady w w' \<longleftrightarrow>
     eventListeners (sess w') = eventListeners (sess w) \<and> nextChan w \<le> nextChan w' \<and>
     (\<exists>xs. log w' = log w @ xs \<and> list_all timeout_coded xs)"
  by (simp add: steady_def extended_iff)

lemma steady_extended: "steady w w' \<Longrightarrow> extended w w'"
  by (simp add: steady_def)

lemma steady_refl [simp]: "steady w w"
  by (simp add: steady_iff)

lemma steady_trans: "steady w w1 \<Longrightarrow> steady w1 w2 \<Longrightarrow> steady w w2"
  by (auto simp: steady_iff)

lemma steady_now [simp]: "steady w (w\<lparr>now := t\<rparr>)"
  by (simp add: steady_iff)

lemma steady_sent: "steady w (sent w m p t)"
  by (simp add: steady_iff sent_def timeout_coded_def)

lemma steady_sendError: "steady w (sendError w i m)"
  by (simp add: steady_iff sendError_def timeout_coded_def)

lemma steady_sendSuccess: "steady w (sendSuccess w i m)"
  by (simp add: steady_iff sendSuccess_def timeout_coded_def)

lemma sendInternalCommand_sent:
  "\<exists>t. snd (sendInternalCommand e w m p) = sent w m p t \<and> now w \<le> t \<and> t \<le> now w + 60 * Second"
  using sendInternalCommand_result [of e w m p] stop_ready_ge [of e w]
  by (auto simp: Second_def)

lemma steady_sendInternalCommand: "steady w (snd (sendInternalCommand e w m p))"
  using sendInternalCommand_sent [of e w m p] by (auto simp: steady_sent)

lemma steady_getContext: "steady w (snd (getContext e w))"
proof -
  have "snd (getContext e w) = snd (sendInternalCommand e w ''browsingContext.getTree'' (JObj []))"
    by (simp add: getContext_def split: prod.splits sum.splits list.splits)
  then show ?thesis by (simp add: steady_sendInternalCommand)
qed

lemma steady_resolveContext: "steady w (snd (resolveContext e w cmd))"
  by (simp add: resolveContext_def Let_def steady_getContext)

lemma pollElement_world:
  "snd (pollElement e w c s) = snd (sendInternalCommand e w ''script.callFunction'' (findParams c s))"
  by (simp add: pollElement_def split: prod.splits sum.splits option.splits)

lemma steady_pollElement: "steady w (snd (pollElement e w c s))"
  by (simp add: pollElement_world steady_sendInternalCommand)

lemma steady_loop: "steady w (snd (waitForElement_loop e c s t d w))"
proof (induction e c s t d w rule: waitForElement_loop.induct)
  case (1 e c s t d w)
  obtain r w1 where p: "pollElement e w c s = (r, w1)" by force
  have s1: "steady w w1" using steady_pollElement [of w e c s] p by simp
  show ?case
  proof (cases r)
    case (Some info)
    with p s1 show ?thesis by (simp add: waitForElement_loop.simps [of e c s t d w])
  next
    case None
    show ?thesis
    proof (cases "d < now w1")
      case True
      with None p s1 show ?thesis by (simp add: waitForElement_loop.simps [of e c s t d w])
    next
      case False
      have "steady (w1\<lparr>now := now w1 + interval\<rparr>)
              (snd (waitForElement_loop e c s t d (w1\<lparr>now := now w1 + interval\<rparr>)))"
        using "1.IH" [OF p [symmetric] None] False by simp
      then have "steady w (snd (waitForElement_loop e c s t d (w1\<lparr>now := now w1 + interval\<rparr>)))"
        using s1 steady_now steady_trans by blast
      with None False p show ?thesis by (simp add: waitForElement_loop.simps [of e c s t d w])
    qed
  qed
qed

lemma steady_waitForElement: "steady w (snd (waitForElement e w c s t))"
  by (simp add: waitForElement_def steady_loop)

lemma waitEvent_world: "\<exists>t. snd (waitEvent e w m r d) = w\<lparr>now := t\<rparr>"
  by (auto simp: waitEvent_def split: prod.splits)

lemma steady_waitEvent: "steady w (snd (waitEvent e w m r d))"
  using waitEvent_world [of e w m r d] by auto

lemma steady_waitStages: "steady w (snd (waitStages e wb t d r w))"
proof -
  obtain b1 w1 where a: "waitEvent e w ''browsingContext.navigationStarted'' r d = (b1, w1)" by force
  obtain b2 w2 where b: "waitEvent e w1 ''browsingContext.domContentLoaded'' r d = (b2, w2)" by force
  obtain b3 w3 where c: "waitEvent e w1 ''browsingContext.load'' r d = (b3, w3)" by force
  have 1: "steady w w1"
    using steady_waitEvent [of w e "''browsingContext.navigationStarted''" r d] a by simp
  have "steady w1 w2"
    using steady_waitEvent [of w1 e "''browsingContext.domContentLoaded''" r d] b by simp
  with 1 have 2: "steady w w2" by (rule steady_trans)
  have "steady w1 w3"
    using steady_waitEvent [of w1 e "''browsingContext.load''" r d] c by simp
  with 1 have 3: "steady w w3" by (rule steady_trans)
  show ?thesis
    using a b c 1 2 3 by (cases b1; cases b2; cases b3) (simp_all add: waitStages_def)
qed

subsection \<open>Listeners\<close>

lemma setupListeners_eq:
  "setupListeners wb w =
     (if wb = ''none'' then ((None, None, None), w)
      else if wb = ''waitForDomContentLoaded'' then
        ((Some (nextChan w), Some (Suc (nextChan w)), None),
         snd (addEventListener (snd (addEventListener w ''browsingContext.navigationStarted''))
                ''browsingContext.domContentLoaded''))
      else if wb = ''waitForLoad'' then
        ((Some (nextChan w), None, Some (Suc (nextChan w))),
         snd (addEventListener (snd (addEventListener w ''browsingContext.navigationStarted''))
                ''browsingContext.load''))
      else ((Some (nextChan w), None, None),
            snd (addEventListener w ''browsingContext.navigationStarted'')))"
  by (simp add: setupListeners_def addEventListener_def Let_def)

lemma addEventListener_simps [simp]:
  "log (snd (addEventListener w m)) = log w"
  "now (snd (addEventListener w m)) = now w"
  "nextChan (snd (addEventListener w m)) = Suc (nextChan w)"
  "nextInternalID (sess (snd (addEventListener w m))) = nextInternalID (sess w)"
  by (simp_all add: addEventListener_def Let_def)

lemma removeEventListener_simps [simp]:
  "log (removeEventListener w m ch) = log w"
  "now (removeEventListener w m ch) = now w"
  "nextChan (removeEventListener w m ch) = nextChan w"
  by (simp_all add: removeEventListener_def Let_def)

lemma cleanupListeners_simps [simp]:
  "log (cleanupListeners n d l w) = log w"
  "now (cleanupListeners n d l w) = now w"
  "nextChan (cleanupListeners n d l w) = nextChan w"
  by (simp_all add: cleanupListeners_def Let_def split: option.splits)

lemma setupListeners_simps [simp]:
  "log (snd (setupListeners wb w)) = log w"
  "now (snd (setupListeners wb w)) = now w"
  "nextChan w \<le> nextChan (snd (setupListeners wb w))"
  "nextInternalID (sess (snd (setupListeners wb w))) = nextInternalID (sess w)"
  by (simp_all add: setupListeners_eq)

lemma removeEventListener_registry:
  "eventListeners (sess (removeEventListener w m ch))
     = (eventListeners (sess w))(m := remove1 ch (eventListeners (sess w) m))"
  by (auto simp: removeEventListener_def Let_def remove1_idem)

lemma cleanup_restores:
  assumes fresh: "listeners_fresh w"
    and su: "setupListeners wb w = ((n, d, l), w1)"
    and same: "eventListeners (sess w2) = eventListeners (sess w1)"
  shows "eventListeners (sess (cleanupListeners n d l w2)) = eventListeners (sess w)"
proof -
  have notin: "nextChan w \<notin> set (eventListeners (sess w) m)" for m
    using fresh by (auto simp: listeners_fresh_def)
  have notin': "Suc (nextChan w) \<notin> set (eventListeners (sess w) m)" for m
    using fresh by (force simp: listeners_fresh_def)
  have r1: "remove1 (nextChan w) (eventListeners (sess w) m @ [nextChan w]) = eventListeners (sess w) m" for m
    using notin [of m] by (simp add: remove1_append)
  have r2: "remove1 (Suc (nextChan w)) (eventListeners (sess w) m @ [Suc (nextChan w)]) = eventListeners (sess w) m" for m
    using notin' [of m] by (simp add: remove1_append)
  consider (none) "wb = ''none''" | (dcl) "wb = ''waitForDomContentLoaded''"
    | (load) "wb = ''waitForLoad''"
    | (other) "wb \<noteq> ''none''" "wb \<noteq> ''waitForDomContentLoaded''" "wb \<noteq> ''waitForLoad''"
    by blast
  then show ?thesis
  proof cases
    case none
    with su same show ?thesis
      by (simp add: setupListeners_eq cleanupListeners_def)
  next
    case dcl
    with su same show ?thesis
      by (auto simp: setupListeners_eq cleanupListeners_def removeEventListener_registry
            addEventListener_def Let_def r1 r2 fun_upd_twist)
  next
    case load
    with su same show ?thesis
      by (auto simp: setupListeners_eq cleanupListeners_def removeEventListener_registry
            addEventListener_def Let_def r1 r2 fun_upd_twist)
  next
    case other
    with su same show ?thesis
      by (auto simp: setupListeners_eq cleanupListeners_def removeEventListener_registry
            addEventListener_def Let_def r1)
  qed
qed

subsection \<open>The handlers\<close>

lemma steady_fresh: "steady w w' \<Longrightarrow> listeners_fresh w \<Longrightarrow> listeners_fresh w'"
  by (force simp: steady_def listeners_fresh_def)

lemma sendError_log: "log (sendError w i m) = log w @ [ClientSendJSON
    \<lparr>resp_ID = i, resp_Type = ''error'', resp_Result = None,
     resp_Error = Some \<lparr>err_Error = ''timeout'', err_Message = m\<rparr>\<rparr>]"
  by (simp add: sendError_def)

lemma answer_after_cleanup:
  assumes su: "setupListeners wb w = ((n, d, l), w1)" and st: "steady w1 w'"
  shows "listeners_fresh w \<longrightarrow> eventListeners (sess (sendError (cleanupListeners n d l w') i m))
            = eventListeners (sess w)"
    and "listeners_fresh w \<longrightarrow> eventListeners (sess (sendSuccess (cleanupListeners n d l w') i res))
            = eventListeners (sess w)"
    and "extended w (sendError (cleanupListeners n d l w') i m)"
    and "extended w (sendSuccess (cleanupListeners n d l w') i res)"
proof -
  from st have same: "eventListeners (sess w') = eventListeners (sess w1)"
    by (simp add: steady_def)
  show "listeners_fresh w \<longrightarrow> eventListeners (sess (sendError (cleanupListeners n d l w') i m))
            = eventListeners (sess w)"
    using cleanup_restores [OF _ su same] by simp
  show "listeners_fresh w \<longrightarrow> eventListeners (sess (sendSuccess (cleanupListeners n d l w') i res))
            = eventListeners (sess w)"
    using cleanup_restores [OF _ su same] by simp
  have "log w1 = log w" using su setupListeners_simps(1) [of wb w] by simp
  then have "extended w w1" by (rule extended_same_log)
  with st have e1: "extended w w'"
    using extended_trans steady_extended by blast
  have e2: "extended w' (cleanupListeners n d l w')" by (simp add: extended_same_log)
  have "extended (cleanupListeners n d l w') (sendError (cleanupListeners n d l w') i m)"
    by (rule steady_extended [OF steady_sendError])
  with e1 e2 show "extended w (sendError (cleanupListeners n d l w') i m)"
    using extended_trans by blast
  have "extended (cleanupListeners n d l w') (sendSuccess (cleanupListeners n d l w') i res)"
    by (rule steady_extended [OF steady_sendSuccess])
  with e1 e2 show "extended w (sendSuccess (cleanupListeners n d l w') i res)"
    using extended_trans by blast
qed

lemma performAndWait_settled:
  "(listeners_fresh w \<longrightarrow>
      eventListeners (sess (performAndWait e w i wb t dl ps res)) = eventListeners (sess w))
   \<and> extended w (performAndWait e w i wb t dl ps res)"
proof -
  obtain n d l w1 where su: "setupListeners wb w = ((n, d, l), w1)"
    by (cases "setupListeners wb w") auto
  obtain r w2 where sc: "sendInternalCommand e w1 ''input.performActions'' ps = (r, w2)"
    by force
  obtain q w3 where ws: "waitStages e wb t dl (now w) w2 = (q, w3)"
    by force
  have s12: "steady w1 w2"
    using steady_sendInternalCommand [of w1 e "''input.performActions''" ps] sc by simp
  have "steady w2 w3"
    using steady_waitStages [of w2 e wb t dl "now w"] ws by simp
  with s12 have s13: "steady w1 w3" by (rule steady_trans)
  show ?thesis
  proof (cases r)
    case (Inl err)
    with su sc show ?thesis
      using answer_after_cleanup(1,3) [OF su s12, of i err]
      by (simp add: performAndWait_def)
  next
    case (Inr resp)
    show ?thesis
    proof (cases q)
      case (Inl err)
      with Inr su sc ws show ?thesis
        using answer_after_cleanup(1,3) [OF su s13, of i err]
        by (simp add: performAndWait_def)
    next
      case (Inr u)
      with \<open>r = Inr resp\<close> su sc ws show ?thesis
        using answer_after_cleanup(2,4) [OF su s13, of i res]
        by (simp add: performAndWait_def)
    qed
  qed
qed

lemma settled_after_steady:
  assumes st: "steady w w1"
    and x: "(listeners_fresh w1 \<longrightarrow> eventListeners (sess x) = eventListeners (sess w1)) \<and> extended w1 x"
  shows "(listeners_fresh w \<longrightarrow> eventListeners (sess x) = eventListeners (sess w)) \<and> extended w x"
  using st x steady_fresh [OF st] extended_trans [OF steady_extended [OF st]]
  by (auto simp: steady_def)

lemma settled_sendError:
  "steady w w1 \<Longrightarrow>
     (listeners_fresh w \<longrightarrow> eventListeners (sess (sendError w1 i m)) = eventListeners (sess w))
     \<and> extended w (sendError w1 i m)"
  using steady_trans [OF _ steady_sendError, of w w1 i m] by (simp add: steady_def)

lemma settled_sendSuccess:
  "steady w w1 \<Longrightarrow>
     (listeners_fresh w \<longrightarrow> eventListeners (sess (sendSuccess w1 i m)) = eventListeners (sess w))
     \<and> extended w (sendSuccess w1 i m)"
  using steady_trans [OF _ steady_sendSuccess, of w w1 i m] by (simp add: steady_def)

lemma handleVibiumFind_settled:
  "(listeners_fresh w \<longrightarrow> eventListeners (sess (handleVibiumFind e w cmd)) = eventListeners (sess w))
   \<and> extended w (handleVibiumFind e w cmd)"
proof -
  obtain r w1 where rc: "resolveContext e w cmd = (r, w1)" by force
  have s1: "steady w w1" using steady_resolveContext [of w e cmd] rc by simp
  show ?thesis
  proof (cases r)
    case (Inl err)
    with rc settled_sendError [OF s1] show ?thesis
      by (simp add: handleVibiumFind_def Let_def)
  next
    case (Inr c)
    obtain q w2 where we: "waitForElement e w1 c (param_string cmd ''selector'') (commandTimeout cmd) = (q, w2)"
      by force
    have "steady w1 w2"
      using steady_waitForElement [of w1 e c "param_string cmd ''selector''" "commandTimeout cmd"] we
      by simp
    with s1 have s2: "steady w w2" by (rule steady_trans)
    from Inr rc we settled_sendError [OF s2] settled_sendSuccess [OF s2] show ?thesis
      by (cases q) (simp_all add: handleVibiumFind_def Let_def)
  qed
qed

lemma handleVibiumClick_settled:
  "(listeners_fresh w \<longrightarrow> eventListeners (sess (handleVibiumClick e w cmd)) = eventListeners (sess w))
   \<and> extended w (handleVibiumClick e w cmd)"
proof -
  obtain r w1 where rc: "resolveContext e w cmd = (r, w1)" by force
  have s1: "steady w w1" using steady_resolveContext [of w e cmd] rc by simp
  show ?thesis
  proof (cases r)
    case (Inl err)
    with rc settled_sendError [OF s1] show ?thesis
      by (simp add: handleVibiumClick_def Let_def)
  next
    case (Inr c)
    obtain q w2 where we: "waitForElement e w1 c (param_string cmd ''selector'')
        (remainingTime w1 (now w + commandTimeout cmd)) = (q, w2)"
      by force
    have "steady w1 w2"
      using steady_waitForElement [of w1 e c "param_string cmd ''selector''"
          "remainingTime w1 (now w + commandTimeout cmd)"] we
      by simp
    with s1 have s2: "steady w w2" by (rule steady_trans)
    show ?thesis
    proof (cases q)
      case (Inl err)
      with Inr rc we settled_sendError [OF s2] show ?thesis
        by (simp add: handleVibiumClick_def Let_def)
    next
      case (Inr info)
      with \<open>r = Inr c\<close> rc we settled_after_steady [OF s2 performAndWait_settled] show ?thesis
        by (simp add: handleVibiumClick_def Let_def)
    qed
  qed
qed

lemma handleVibiumType_settled:
  "(listeners_fresh w \<longrightarrow> eventListeners (sess (handleVibiumType e w cmd)) = eventListeners (sess w))
   \<and> extended w (handleVibiumType e w cmd)"
proof -
  obtain r w1 where rc: "resolveContext e w cmd = (r, w1)" by force
  have s1: "steady w w1" using steady_resolveContext [of w e cmd] rc by simp
  show ?thesis
  proof (cases r)
    case (Inl err)
    with rc settled_sendError [OF s1] show ?thesis
      by (simp add: handleVibiumType_def Let_def)
  next
    case (Inr c)
    obtain q w2 where we: "waitForElement e w1 c (param_string cmd ''selector'')
        (remainingTime w1 (now w + commandTimeout cmd)) = (q, w2)"
      by force
    have "steady w1 w2"
      using steady_waitForElement [of w1 e c "param_string cmd ''selector''"
          "remainingTime w1 (now w + commandTimeout cmd)"] we
      by simp
    with s1 have s2: "steady w w2" by (rule steady_trans)
    show ?thesis
    proof (cases q)
      case (Inl err)
      with Inr rc we settled_sendError [OF s2] show ?thesis
        by (simp add: handleVibiumType_def Let_def)
    next
      case (Inr info)
      obtain k w3 where fc: "sendInternalCommand e w2 ''input.performActions''
          (clickParams c (pointerX e info) (pointerY e info)) = (k, w3)"
        by force
      have "steady w2 w3"
        using steady_sendInternalCommand [of w2 e "''input.performActions''"
            "clickParams c (pointerX e info) (pointerY e info)"] fc
        by simp
      with s2 have s3: "steady w w3" by (rule steady_trans)
      from Inr \<open>r = Inr c\<close> rc we fc settled_sendError [OF s3]
        settled_after_steady [OF s3 performAndWait_settled]
      show ?thesis
        by (cases k) (simp_all add: handleVibiumType_def Let_def)
    qed
  qed
qed

subsection \<open>Listeners after a command\<close>

text \<open>
  C5. From a session whose registered listener channels were all made earlier, each of
  the three extension commands returns, whatever the environment does and on whichever
  path, with the registry of listeners exactly as it found it; so no channel that the
  command made is left registered.
\<close>

theorem handlers_leave_registry:
  assumes "listeners_fresh w"
  shows "eventListeners (sess (handleVibiumFind e w cmd)) = eventListeners (sess w)
    \<and> eventListeners (sess (handleVibiumClick e w cmd)) = eventListeners (sess w)
    \<and> eventListeners (sess (handleVibiumType e w cmd)) = eventListeners (sess w)
    \<and> (\<forall>h \<in> {handleVibiumFind e w cmd, handleVibiumClick e w cmd, handleVibiumType e w cmd}.
          \<forall>m ch. ch \<in> set (eventListeners (sess h) m) \<longrightarrow> ch < nextChan w)"
proof -
  have 1: "eventListeners (sess (handleVibiumFind e w cmd)) = eventListeners (sess w)"
    using assms handleVibiumFind_settled [of w e cmd] by simp
  have 2: "eventListeners (sess (handleVibiumClick e w cmd)) = eventListeners (sess w)"
    using assms handleVibiumClick_settled [of w e cmd] by simp
  have 3: "eventListeners (sess (handleVibiumType e w cmd)) = eventListeners (sess w)"
    using assms handleVibiumType_settled [of w e cmd] by simp
  from assms have "\<forall>m ch. ch \<in> set (eventListeners (sess w) m) \<longrightarrow> ch < nextChan w"
    by (simp add: listeners_fresh_def)
  with 1 2 3 show ?thesis by simp
qed

text \<open>
  A click with the default wait policy on the connected session, in an environment in
  which the element is there and the page never navigates: the command registers two
  listeners and ends on the timeout of the first wait; the registry is empty again.
\<close>

theorem handlers_leave_registry_witness:
  "listeners_fresh connected
   \<and> eventListeners (sess (handleVibiumClick
        (quiet\<lparr>reply := (\<lambda>i. Some (5, ''r'')),
               decode_callFunction := (\<lambda>msg. Some (''string'', ''{}'')),
               decode_elementInfo := (\<lambda>msg. Some \<lparr>info_Tag = ''a'', info_Text = [],
                  info_Box = \<lparr>box_X = 0, box_Y = 0, box_Width = 10, box_Height = 10\<rparr>\<rparr>)\<rparr>)
        connected
        \<lparr>cmd_ID = 2, cmd_Method = ''vibium:click'',
         cmd_Params = [''selector'' \<mapsto> JStr ''a'', ''context'' \<mapsto> JStr ''ctx'']\<rparr>))
      = (\<lambda>m. [])"
  using handlers_leave_registry [of connected
        "quiet\<lparr>reply := (\<lambda>i. Some (5, ''r'')),
               decode_callFunction := (\<lambda>msg. Some (''string'', ''{}'')),
               decode_elementInfo := (\<lambda>msg. Some \<lparr>info_Tag = ''a'', info_Text = [],
                  info_Box = \<lparr>box_X = 0, box_Y = 0, box_Width = 10, box_Height = 10\<rparr>\<rparr>)\<rparr>"
        "\<lparr>cmd_ID = 2, cmd_Method = ''vibium:click'',
         cmd_Params = [''selector'' \<mapsto> JStr ''a'', ''context'' \<mapsto> JStr ''ctx'']\<rparr>"]
  by (simp add: connected_eq listeners_fresh_def)

subsection \<open>The code of an error reply\<close>

text \<open>
  C10. Every reply of type \<open>error\<close> that an extension command sends carries the code
  \<open>timeout\<close>: \<open>sendError\<close> writes that code next to whatever message it is given, and
  each command only adds well coded calls to the log. A command whose context cannot be
  resolved answers with \<open>sendError\<close> and the message of that failure, be it no browsing
  context, a failed write or a closed session.
\<close>

theorem error_replies_coded_timeout:
  "new_calls w (sendError w i m)
      = [ClientSendJSON \<lparr>resp_ID = i, resp_Type = ''error'', resp_Result = None,
                         resp_Error = Some \<lparr>err_Error = ''timeout'', err_Message = m\<rparr>\<rparr>]
   \<and> list_all timeout_coded (new_calls w (handleVibiumFind e w cmd))
   \<and> list_all timeout_coded (new_calls w (handleVibiumClick e w cmd))
   \<and> list_all timeout_coded (new_calls w (handleVibiumType e w cmd))
   \<and> (\<forall>err w1. resolveContext e w cmd = (Inl err, w1) \<longrightarrow>
         handleVibiumFind e w cmd = sendError w1 (cmd_ID cmd) err
         \<and> handleVibiumClick e w cmd = sendError w1 (cmd_ID cmd) err
         \<and> handleVibiumType e w cmd = sendError w1 (cmd_ID cmd) err)"
proof -
  have "new_calls w (sendError w i m)
      = [ClientSendJSON \<lparr>resp_ID = i, resp_Type = ''error'', resp_Result = None,
                         resp_Error = Some \<lparr>err_Error = ''timeout'', err_Message = m\<rparr>\<rparr>]"
    by (simp add: new_calls_def sendError_log)
  moreover have "list_all timeout_coded (new_calls w (handleVibiumFind e w cmd))"
    using handleVibiumFind_settled [of w e cmd] by (simp add: extended_def)
  moreover have "list_all timeout_coded (new_calls w (handleVibiumClick e w cmd))"
    using handleVibiumClick_settled [of w e cmd] by (simp add: extended_def)
  moreover have "list_all timeout_coded (new_calls w (handleVibiumType e w cmd))"
    using handleVibiumType_settled [of w e cmd] by (simp add: extended_def)
  moreover have "\<forall>err w1. resolveContext e w cmd = (Inl err, w1) \<longrightarrow>
         handleVibiumFind e w cmd = sendError w1 (cmd_ID cmd) err
         \<and> handleVibiumClick e w cmd = sendError w1 (cmd_ID cmd) err
         \<and> handleVibiumType e w cmd = sendError w1 (cmd_ID cmd) err"
    by (simp add: handleVibiumFind_def handleVibiumClick_def handleVibiumType_def Let_def)
  ultimately show ?thesis by blast
qed

text \<open>
  A find on the connected session whose \<open>getTree\<close> is answered with no context: the reply
  to the client says \<open>timeout\<close> with the message of the missing context.
\<close>

theorem error_replies_coded_timeout_witness:
  "resolveContext (quiet\<lparr>reply := (\<lambda>i. Some (0, ''{}'')), decode_getTree := (\<lambda>msg. Inr [])\<rparr>)
      connected \<lparr>cmd_ID = 4, cmd_Method = ''vibium:find'', cmd_Params = [''selector'' \<mapsto> JStr ''a'']\<rparr>
    = (Inl ''no browsing contexts available'', sent connected ''browsingContext.getTree'' (JObj []) 0)
   \<and> new_calls connected
        (handleVibiumFind (quiet\<lparr>reply := (\<lambda>i. Some (0, ''{}'')), decode_getTree := (\<lambda>msg. Inr [])\<rparr>)
           connected \<lparr>cmd_ID = 4, cmd_Method = ''vibium:find'', cmd_Params = [''selector'' \<mapsto> JStr ''a'']\<rparr>)
      = [BidiSendCmd 1000000 ''browsingContext.getTree'' (JObj []),
         ClientSendJSON \<lparr>resp_ID = 4, resp_Type = ''error'', resp_Result = None,
            resp_Error = Some \<lparr>err_Error = ''timeout'',
                                err_Message = ''no browsing contexts available''\<rparr>\<rparr>]"
proof -
  let ?e = "quiet\<lparr>reply := (\<lambda>i. Some (0, ''{}'')), decode_getTree := (\<lambda>msg. Inr [])\<rparr>"
  let ?cmd = "\<lparr>cmd_ID = 4, cmd_Method = ''vibium:find'', cmd_Params = [''selector'' \<mapsto> JStr ''a'']\<rparr>"
  have s: "sendInternalCommand ?e connected ''browsingContext.getTree'' (JObj [])
           = (Inr ''{}'', sent connected ''browsingContext.getTree'' (JObj []) 0)"
    by (simp add: sendInternalCommand_def registerInternal_def awaitInternal_def select_def
          unregisterInternal_def emit_def sent_def stop_ready_def Let_def quiet_def connected_eq
          Second_def)
  have rc: "resolveContext ?e connected ?cmd
    = (Inl ''no browsing contexts available'', sent connected ''browsingContext.getTree'' (JObj []) 0)"
    by (simp add: resolveContext_def param_string_def getContext_def s)
  from error_replies_coded_timeout [of connected 0 "[]" ?e ?cmd] rc
  have "handleVibiumFind ?e connected ?cmd
        = sendError (sent connected ''browsingContext.getTree'' (JObj []) 0) 4
            ''no browsing contexts available''"
    by simp
  with rc show ?thesis
    by (simp add: new_calls_def sendError_log sent_def connected_eq)
qed

subsection \<open>Wait policies\<close>

lemma param_string_other:
  "k \<noteq> k' \<Longrightarrow> param_string (cmd\<lparr>cmd_Params := (cmd_Params cmd)(k' \<mapsto> v)\<rparr>) k = param_string cmd k"
  by (simp add: param_string_def)

lemma param_float64_other:
  "k \<noteq> k' \<Longrightarrow> param_float64 (cmd\<lparr>cmd_Params := (cmd_Params cmd)(k' \<mapsto> v)\<rparr>) k = param_float64 cmd k"
  by (simp add: param_float64_def)

lemma param_string_set:
  "param_string (cmd\<lparr>cmd_Params := (cmd_Params cmd)(k \<mapsto> JStr v)\<rparr>) k = v"
  by (simp add: param_string_def)

lemma setupListeners_unrecognised:
  assumes "wb \<noteq> ''none''" "wb \<noteq> ''waitForDomContentLoaded''" "wb \<noteq> ''waitForLoad''"
  shows "setupListeners wb w
         = ((Some (nextChan w), None, None), snd (addEventListener w ''browsingContext.navigationStarted''))"
  using assms by (simp add: setupListeners_eq)

lemma waitStages_unrecognised:
  assumes "wb \<noteq> ''none''" "wb \<noteq> ''waitForDomContentLoaded''" "wb \<noteq> ''waitForLoad''"
  shows "waitStages e wb t d r w
         = (case waitEvent e w ''browsingContext.navigationStarted'' r d of
              (False, w1) \<Rightarrow>
                (Inl (''timeout after '' @ durationString t @ '' waiting for navigation to start''), w1)
            | (True, w1) \<Rightarrow> (Inr (), w1))"
  using assms by (simp add: waitStages_def split: prod.splits bool.splits)

lemma performAndWait_unrecognised:
  assumes "wb \<noteq> ''none''" "wb \<noteq> ''waitForDomContentLoaded''" "wb \<noteq> ''waitForLoad''"
  shows "performAndWait e w i wb t d ps res
         = performAndWait e w i ''waitForNavigationStarted'' t d ps res"
proof -
  have 1: "setupListeners wb w = setupListeners ''waitForNavigationStarted'' w"
    using assms by (simp add: setupListeners_unrecognised)
  have 2: "waitStages e wb t d r v = waitStages e ''waitForNavigationStarted'' t d r v" for r v
    using assms by (simp add: waitStages_unrecognised)
  show ?thesis
    unfolding performAndWait_def 1 2 ..
qed

lemma performAndWait_navigationStarted_only:
  assumes "wb \<noteq> ''none''" "wb \<noteq> ''waitForDomContentLoaded''" "wb \<noteq> ''waitForLoad''"
  shows "performAndWait e w i wb t d ps res = navigationStarted_only e w i t d ps res"
proof -
  have a: "addEventListener w ''browsingContext.navigationStarted''
           = (nextChan w, snd (addEventListener w ''browsingContext.navigationStarted''))"
    by (simp add: addEventListener_def Let_def)
  have c: "cleanupListeners (Some ch) None None v
           = removeEventListener v ''browsingContext.navigationStarted'' ch" for ch v
    by (simp add: cleanupListeners_def)
  have n: "now (snd (addEventListener w ''browsingContext.navigationStarted'')) = now w"
    by simp
  show ?thesis
    unfolding performAndWait_def navigationStarted_only_def
      setupListeners_unrecognised [OF assms] waitStages_unrecognised [OF assms]
    by (subst (2) a) (simp add: c split: prod.splits sum.splits bool.splits)
qed

text \<open>
  C9. Take a command whose \<open>waitBehavior\<close> is not empty and is none of \<open>none\<close>,
  \<open>waitForDomContentLoaded\<close>, \<open>waitForLoad\<close>. It is not rejected: \<open>vibium:click\<close> and
  \<open>vibium:type\<close> do with it exactly what they do with \<open>waitForNavigationStarted\<close>. Once
  the element is found (and, for type, the focusing click is answered) the command
  registers the listener for \<open>browsingContext.navigationStarted\<close> and no other, sends
  its action, waits for that one event until the deadline, removes the listener and
  answers: with success when the event came, with the timeout of that stage when it did
  not, with the action's error when the action failed.
\<close>

theorem unrecognised_waitBehavior:
  assumes "param_string cmd ''waitBehavior'' = wb"
    and "wb \<noteq> []" "wb \<noteq> ''none''" "wb \<noteq> ''waitForDomContentLoaded''" "wb \<noteq> ''waitForLoad''"
  shows "handleVibiumClick e w cmd
         = handleVibiumClick e w
             (cmd\<lparr>cmd_Params := (cmd_Params cmd)(''waitBehavior'' \<mapsto> JStr ''waitForNavigationStarted'')\<rparr>)
    \<and> handleVibiumType e w cmd
         = handleVibiumType e w
             (cmd\<lparr>cmd_Params := (cmd_Params cmd)(''waitBehavior'' \<mapsto> JStr ''waitForNavigationStarted'')\<rparr>)
    \<and> (\<forall>ctx w1 info w2.
          resolveContext e w cmd = (Inr ctx, w1)
          \<and> waitForElement e w1 ctx (param_string cmd ''selector'')
               (remainingTime w1 (now w + commandTimeout cmd)) = (Inr info, w2)
        \<longrightarrow> handleVibiumClick e w cmd
            = navigationStarted_only e w2 (cmd_ID cmd) (commandTimeout cmd) (now w + commandTimeout cmd)
                (clickParams ctx (pointerX e info) (pointerY e info))
                (JObj [(''clicked'', JBool True)]))
    \<and> (\<forall>ctx w1 info w2 resp w3.
          resolveContext e w cmd = (Inr ctx, w1)
          \<and> waitForElement e w1 ctx (param_string cmd ''selector'')
               (remainingTime w1 (now w + commandTimeout cmd)) = (Inr info, w2)
          \<and> sendInternalCommand e w2 ''input.performActions''
               (clickParams ctx (pointerX e info) (pointerY e info)) = (Inr resp, w3)
        \<longrightarrow> handleVibiumType e w cmd
            = navigationStarted_only e w3 (cmd_ID cmd) (commandTimeout cmd) (now w + commandTimeout cmd)
                (typeParams e ctx (param_string cmd ''text''))
                (JObj [(''typed'', JBool True)]))
    \<and> (\<forall>v mth. eventListeners (sess (snd (addEventListener v ''browsingContext.navigationStarted''))) mth
          = (if mth = ''browsingContext.navigationStarted''
             then eventListeners (sess v) mth @ [nextChan v] else eventListeners (sess v) mth))"
proof -
  let ?c2 = "cmd\<lparr>cmd_Params := (cmd_Params cmd)(''waitBehavior'' \<mapsto> JStr ''waitForNavigationStarted'')\<rparr>"
  have ct: "commandTimeout ?c2 = commandTimeout cmd"
    by (simp add: commandTimeout_def param_float64_other)
  have rc: "resolveContext e v ?c2 = resolveContext e v cmd" for v
    by (simp add: resolveContext_def param_string_other)
  have sel: "param_string ?c2 ''selector'' = param_string cmd ''selector''"
    by (simp add: param_string_other)
  have tx: "param_string ?c2 ''text'' = param_string cmd ''text''"
    by (simp add: param_string_other)
  have ids: "cmd_ID ?c2 = cmd_ID cmd" by simp
  note pw = performAndWait_unrecognised [OF assms(3-5)]
  note po = performAndWait_navigationStarted_only [OF assms(3-5)]
  have cl_eq: "handleVibiumClick e w cmd = handleVibiumClick e w ?c2"
    unfolding handleVibiumClick_def Let_def ct rc sel ids param_string_set assms(1)
    using assms(2) by simp (simp only: pw)
  have ty_eq: "handleVibiumType e w cmd = handleVibiumType e w ?c2"
    unfolding handleVibiumType_def Let_def ct rc sel tx ids param_string_set assms(1)
    using assms(2) by simp (simp only: pw)
  have cl_run: "\<forall>ctx w1 info w2.
          resolveContext e w cmd = (Inr ctx, w1)
          \<and> waitForElement e w1 ctx (param_string cmd ''selector'')
               (remainingTime w1 (now w + commandTimeout cmd)) = (Inr info, w2)
        \<longrightarrow> handleVibiumClick e w cmd
            = navigationStarted_only e w2 (cmd_ID cmd) (commandTimeout cmd) (now w + commandTimeout cmd)
                (clickParams ctx (pointerX e info) (pointerY e info))
                (JObj [(''clicked'', JBool True)])"
    unfolding handleVibiumClick_def Let_def assms(1)
    using assms(2) by (simp add: po)
  have ty_run: "\<forall>ctx w1 info w2 resp w3.
          resolveContext e w cmd = (Inr ctx, w1)
          \<and> waitForElement e w1 ctx (param_string cmd ''selector'')
               (remainingTime w1 (now w + commandTimeout cmd)) = (Inr info, w2)
          \<and> sendInternalCommand e w2 ''input.performActions''
               (clickParams ctx (pointerX e info) (pointerY e info)) = (Inr resp, w3)
        \<longrightarrow> handleVibiumType e w cmd
            = navigationStarted_only e w3 (cmd_ID cmd) (commandTimeout cmd) (now w + commandTimeout cmd)
                (typeParams e ctx (param_string cmd ''text''))
                (JObj [(''typed'', JBool True)])"
    unfolding handleVibiumType_def Let_def assms(1)
    using assms(2) by (simp add: po)
  have reg: "\<forall>v mth. eventListeners (sess (snd (addEventListener v ''browsingContext.navigationStarted''))) mth
          = (if mth = ''browsingContext.navigationStarted''
             then eventListeners (sess v) mth @ [nextChan v] else eventListeners (sess v) mth)"
    by (simp add: addEventListener_def Let_def)
  show ?thesis
    by (rule conjI [OF cl_eq conjI [OF ty_eq conjI [OF cl_run conjI [OF ty_run reg]]]])
qed

text \<open>
  A click with the policy \<open>waitForEverything\<close> on the connected session. The element is
  found at the first poll, every command is answered after a millisecond, and the page
  starts a navigation at 5 milliseconds and never finishes loading. The command
  registers channel 1 for \<open>browsingContext.navigationStarted\<close>, sends its action, is
  woken by the event at 5 milliseconds and answers with success; the registry is empty
  again.
\<close>

theorem unrecognised_waitBehavior_witness:
  "param_string \<lparr>cmd_ID = 3, cmd_Method = ''vibium:click'',
       cmd_Params = [''selector'' \<mapsto> JStr ''a'', ''context'' \<mapsto> JStr ''ctx-1'',
                     ''waitBehavior'' \<mapsto> JStr ''waitForEverything'']\<rparr> ''waitBehavior''
     = ''waitForEverything''
   \<and> ''waitForEverything'' \<noteq> [] \<and> ''waitForEverything'' \<noteq> ''none''
   \<and> ''waitForEverything'' \<noteq> ''waitForDomContentLoaded'' \<and> ''waitForEverything'' \<noteq> ''waitForLoad''
   \<and> eventListeners (sess (snd (addEventListener
         (sent connected ''script.callFunction'' (findParams ''ctx-1'' ''a'') 1000000)
         ''browsingContext.navigationStarted''))) ''browsingContext.navigationStarted'' = [1]
   \<and> log (handleVibiumClick
        (quiet\<lparr>reply := (\<lambda>i. Some (1000000, ''r'')),
               browser_events := [(5000000, ''browsingContext.navigationStarted'')],
               decode_callFunction := (\<lambda>msg. Some (''string'', ''{}'')),
               decode_elementInfo := (\<lambda>msg. Some \<lparr>info_Tag = ''a'', info_Text = [],
                  info_Box = \<lparr>box_X = 0, box_Y = 0, box_Width = 10, box_Height = 10\<rparr>\<rparr>)\<rparr>)
        connected
        \<lparr>cmd_ID = 3, cmd_Method = ''vibium:click'',
         cmd_Params = [''selector'' \<mapsto> JStr ''a'', ''context'' \<mapsto> JStr ''ctx-1'',
                       ''waitBehavior'' \<mapsto> JStr ''waitForEverything'']\<rparr>)
     = [SessionSubscribe navigationEvents,
        BidiSendCmd 1000000 ''script.callFunction'' (findParams ''ctx-1'' ''a''),
        BidiSendCmd 1000001 ''input.performActions'' (clickParams ''ctx-1'' 5 5),
        ClientSendJSON \<lparr>resp_ID = 3, resp_Type = ''success'',
                        resp_Result = Some (JObj [(''clicked'', JBool True)]), resp_Error = None\<rparr>]
   \<and> now (handleVibiumClick
        (quiet\<lparr>reply := (\<lambda>i. Some (1000000, ''r'')),
               browser_events := [(5000000, ''browsingContext.navigationStarted'')],
               decode_callFunction := (\<lambda>msg. Some (''string'', ''{}'')),
               decode_elementInfo := (\<lambda>msg. Some \<lparr>info_Tag = ''a'', info_Text = [],
                  info_Box = \<lparr>box_X = 0, box_Y = 0, box_Width = 10, box_Height = 10\<rparr>\<rparr>)\<rparr>)
        connected
        \<lparr>cmd_ID = 3, cmd_Method = ''vibium:click'',
         cmd_Params = [''selector'' \<mapsto> JStr ''a'', ''context'' \<mapsto> JStr ''ctx-1'',
                       ''waitBehavior'' \<mapsto> JStr ''waitForEverything'']\<rparr>) = 5000000
   \<and> eventListeners (sess (handleVibiumClick
        (quiet\<lparr>reply := (\<lambda>i. Some (1000000, ''r'')),
               browser_events := [(5000000, ''browsingContext.navigationStarted'')],
               decode_callFunction := (\<lambda>msg. Some (''string'', ''{}'')),
               decode_elementInfo := (\<lambda>msg. Some \<lparr>info_Tag = ''a'', info_Text = [],
                  info_Box = \<lparr>box_X = 0, box_Y = 0, box_Width = 10, box_Height = 10\<rparr>\<rparr>)\<rparr>)
        connected
        \<lparr>cmd_ID = 3, cmd_Method = ''vibium:click'',
         cmd_Params = [''selector'' \<mapsto> JStr ''a'', ''context'' \<mapsto> JStr ''ctx-1'',
                       ''waitBehavior'' \<mapsto> JStr ''waitForEverything'']\<rparr>))
        ''browsingContext.navigationStarted'' = []"
proof -
  let ?info = "\<lparr>info_Tag = ''a'', info_Text = [],
      info_Box = \<lparr>box_X = 0, box_Y = 0, box_Width = 10, box_Height = 10\<rparr>\<rparr>"
  let ?e = "quiet\<lparr>reply := (\<lambda>i. Some (1000000, ''r'')),
               browser_events := [(5000000, ''browsingContext.navigationStarted'')],
               decode_callFunction := (\<lambda>msg. Some (''string'', ''{}'')),
               decode_elementInfo := (\<lambda>msg. Some ?info)\<rparr>"
  let ?cmd = "\<lparr>cmd_ID = 3, cmd_Method = ''vibium:click'',
         cmd_Params = [''selector'' \<mapsto> JStr ''a'', ''context'' \<mapsto> JStr ''ctx-1'',
                       ''waitBehavior'' \<mapsto> JStr ''waitForEverything'']\<rparr>"
  let ?w2 = "sent connected ''script.callFunction'' (findParams ''ctx-1'' ''a'') 1000000"
  have wbv: "param_string ?cmd ''waitBehavior'' = ''waitForEverything''"
    by (simp add: param_string_def)
  have rc: "resolveContext ?e connected ?cmd = (Inr ''ctx-1'', connected)"
    by (simp add: resolveContext_def param_string_def)
  have sel: "param_string ?cmd ''selector'' = ''a''"
    by (simp add: param_string_def)
  have ctm: "commandTimeout ?cmd = 30000000000"
    by (simp add: commandTimeout_def param_float64_def defaultTimeout_def Second_def)
  have tmo: "now connected + 30000000000 = 30000000000"
    "remainingTime connected 30000000000 = 30000000000"
    by (simp_all add: remainingTime_def connected_eq)
  have s: "sendInternalCommand ?e connected ''script.callFunction'' (findParams ''ctx-1'' ''a'')
           = (Inr ''r'', ?w2)"
    by (simp add: sendInternalCommand_def registerInternal_def awaitInternal_def select_def
          unregisterInternal_def emit_def sent_def stop_ready_def Let_def quiet_def connected_eq
          Second_def)
  have poll: "pollElement ?e connected ''ctx-1'' ''a'' = (Some ?info, ?w2)"
    by (simp add: pollElement_def s)
  have we: "waitForElement ?e connected ''ctx-1'' ''a'' 30000000000 = (Inr ?info, ?w2)"
    by (simp add: waitForElement_def
          waitForElement_loop.simps [of ?e "''ctx-1''" "''a''" 30000000000 "now connected + 30000000000" connected]
          poll)
  have px: "pointerX ?e ?info = 5" "pointerY ?e ?info = 5"
    by (simp_all add: pointerX_def pointerY_def float64_to_int_def quiet_def)
  have ne: "''waitForEverything'' \<noteq> []" "''waitForEverything'' \<noteq> ''none''"
    "''waitForEverything'' \<noteq> ''waitForDomContentLoaded''" "''waitForEverything'' \<noteq> ''waitForLoad''"
    by simp_all
  note inst = unrecognised_waitBehavior [OF wbv ne, of ?e connected]
  note cl = inst [THEN conjunct2, THEN conjunct2, THEN conjunct1, rule_format,
      of "''ctx-1''" connected ?info ?w2]
  note rg = inst [THEN conjunct2, THEN conjunct2, THEN conjunct2, THEN conjunct2, rule_format,
      of ?w2 "''browsingContext.navigationStarted''"]
  have pre: "resolveContext ?e connected ?cmd = (Inr ''ctx-1'', connected)
      \<and> waitForElement ?e connected ''ctx-1'' (param_string ?cmd ''selector'')
           (remainingTime connected (now connected + commandTimeout ?cmd)) = (Inr ?info, ?w2)"
    unfolding sel ctm tmo by (intro conjI rc we)
  from cl [OF pre]
  have run: "handleVibiumClick ?e connected ?cmd
        = navigationStarted_only ?e ?w2 3 30000000000 30000000000
            (clickParams ''ctx-1'' 5 5) (JObj [(''clicked'', JBool True)])"
    unfolding ctm tmo px by simp
  from rg
  have reg: "eventListeners (sess (snd (addEventListener ?w2 ''browsingContext.navigationStarted'')))
        ''browsingContext.navigationStarted'' = [1]"
    by (simp add: sent_def connected_eq)
  let ?run = "navigationStarted_only ?e ?w2 3 30000000000 30000000000
            (clickParams ''ctx-1'' 5 5) (JObj [(''clicked'', JBool True)])"
  have fin: "log ?run = [SessionSubscribe navigationEvents,
                BidiSendCmd 1000000 ''script.callFunction'' (findParams ''ctx-1'' ''a''),
                BidiSendCmd 1000001 ''input.performActions'' (clickParams ''ctx-1'' 5 5),
                ClientSendJSON \<lparr>resp_ID = 3, resp_Type = ''success'',
                        resp_Result = Some (JObj [(''clicked'', JBool True)]), resp_Error = None\<rparr>]"
    "now ?run = 5000000"
    "eventListeners (sess ?run) ''browsingContext.navigationStarted'' = []"
    by (simp_all add: navigationStarted_only_def addEventListener_def sendInternalCommand_def
          registerInternal_def awaitInternal_def select_def unregisterInternal_def emit_def sent_def
          stop_ready_def waitEvent_def first_event_def remainingTime_def removeEventListener_def
          sendSuccess_def Let_def quiet_def connected_eq Second_def wrap64_def)
  show ?thesis
    unfolding run by (intro conjI wbv ne reg fin)
qed

subsection \<open>The polling loop\<close>

lemma loop_error:
  "waitForElement_loop e c s t d w = (Inl m, w') \<Longrightarrow> m = notFound t s \<and> d < now w'"
proof (induction e c s t d w rule: waitForElement_loop.induct)
  case (1 e c s t d w)
  obtain r w1 where p: "pollElement e w c s = (r, w1)" by force
  show ?case
  proof (cases r)
    case (Some info)
    with p "1.prems" show ?thesis by (simp add: waitForElement_loop.simps [of e c s t d w])
  next
    case None
    show ?thesis
    proof (cases "d < now w1")
      case True
      with None p "1.prems" show ?thesis
        by (auto simp: waitForElement_loop.simps [of e c s t d w])
    next
      case False
      with None p "1.prems"
      have "waitForElement_loop e c s t d (w1\<lparr>now := now w1 + interval\<rparr>) = (Inl m, w')"
        by (simp add: waitForElement_loop.simps [of e c s t d w])
      with "1.IH" [OF p [symmetric] None] False show ?thesis by simp
    qed
  qed
qed

lemma loop_absent:
  "\<forall>v. fst (pollElement e v c s) = None \<Longrightarrow>
     \<exists>w'. waitForElement_loop e c s t d w = (Inl (notFound t s), w')"
proof (induction e c s t d w rule: waitForElement_loop.induct)
  case (1 e c s t d w)
  obtain r w1 where p: "pollElement e w c s = (r, w1)" by force
  with "1.prems" have r: "r = None" by (metis fst_conv)
  show ?case
  proof (cases "d < now w1")
    case True
    with r p show ?thesis by (simp add: waitForElement_loop.simps [of e c s t d w])
  next
    case False
    with "1.IH" [OF p [symmetric] r] "1.prems"
    have "\<exists>w'. waitForElement_loop e c s t d (w1\<lparr>now := now w1 + interval\<rparr>) = (Inl (notFound t s), w')"
      by simp
    with r p False show ?thesis by (simp add: waitForElement_loop.simps [of e c s t d w])
  qed
qed



subsection \<open>The pointer position\<close>

lemma extended_subset: "extended w w' \<Longrightarrow> set (log w) \<subseteq> set (log w')"
  by (auto simp: extended_iff)

lemma sendInternalCommand_logged:
  "BidiSendCmd (nextInternalID (sess w)) m p \<in> set (log (snd (sendInternalCommand e w m p)))"
  using sendInternalCommand_sent [of e w m p] by (auto simp: sent_def)

lemma performAndWait_logged:
  "BidiSendCmd (nextInternalID (sess w)) ''input.performActions'' ps
     \<in> set (log (performAndWait e w i wb t dl ps res))"
proof -
  obtain n d l w1 where su: "setupListeners wb w = ((n, d, l), w1)"
    by (cases "setupListeners wb w") auto
  obtain r w2 where sc: "sendInternalCommand e w1 ''input.performActions'' ps = (r, w2)"
    by force
  obtain q w3 where ws: "waitStages e wb t dl (now w) w2 = (q, w3)"
    by force
  have "nextInternalID (sess w1) = nextInternalID (sess w)"
    using su setupListeners_simps(4) [of wb w] by simp
  then have in2: "BidiSendCmd (nextInternalID (sess w)) ''input.performActions'' ps \<in> set (log w2)"
    using sendInternalCommand_logged [of w1 "''input.performActions''" ps e] sc by simp
  have "steady w2 w3"
    using steady_waitStages [of w2 e wb t dl "now w"] ws by simp
  then have "set (log w2) \<subseteq> set (log w3)"
    by (intro extended_subset steady_extended)
  with in2 have in3: "BidiSendCmd (nextInternalID (sess w)) ''input.performActions'' ps \<in> set (log w3)"
    by blast
  show ?thesis
  proof (cases r)
    case (Inl err)
    with su sc in2 show ?thesis
      by (simp add: performAndWait_def sendError_def)
  next
    case (Inr resp)
    with su sc ws in3 show ?thesis
      by (cases q) (simp_all add: performAndWait_def sendError_def sendSuccess_def)
  qed
qed

lemma float64_to_int_trunc:
  assumes "- (2 ^ 63) \<le> c" "c < 2 ^ 63"
  shows "float64_to_int c = (if 0 \<le> c then \<lfloor>c\<rfloor> else \<lceil>c\<rceil>)"
proof (cases "0 \<le> c")
  case True
  then have "0 \<le> \<lfloor>c\<rfloor>" by simp
  moreover from assms(2) have "\<lfloor>c\<rfloor> < 2 ^ 63" by (simp add: floor_less_iff)
  ultimately show ?thesis using True by (simp add: float64_to_int_def Let_def)
next
  case False
  then have "\<lceil>c\<rceil> \<le> 0" by (simp add: ceiling_le_iff)
  moreover from assms(1) have "- (2 ^ 63) \<le> \<lceil>c\<rceil>" by (simp add: le_ceiling_iff)
  ultimately show ?thesis using False by (simp add: float64_to_int_def Let_def)
qed

text \<open>
  C8, as amended. With the centre computed in float64 arithmetic and within the range
  of int64, the pointer coordinates are the centre truncated towards zero: rounded down
  when the coordinate is not negative, rounded up when it is negative. \<open>vibium:click\<close>,
  and the focusing click of \<open>vibium:type\<close>, send \<open>input.performActions\<close> with the
  \<open>pointerMove\<close> at these coordinates once the element is found.
\<close>

theorem pointer_truncates_towards_zero:
  "(- (2 ^ 63) \<le> round64 e (box_X (info_Box info) + round64 e (box_Width (info_Box info) / 2))
      \<and> round64 e (box_X (info_Box info) + round64 e (box_Width (info_Box info) / 2)) < 2 ^ 63
    \<longrightarrow> pointerX e info
        = (if 0 \<le> round64 e (box_X (info_Box info) + round64 e (box_Width (info_Box info) / 2))
           then \<lfloor>round64 e (box_X (info_Box info) + round64 e (box_Width (info_Box info) / 2))\<rfloor>
           else \<lceil>round64 e (box_X (info_Box info) + round64 e (box_Width (info_Box info) / 2))\<rceil>))
   \<and> (- (2 ^ 63) \<le> round64 e (box_Y (info_Box info) + round64 e (box_Height (info_Box info) / 2))
      \<and> round64 e (box_Y (info_Box info) + round64 e (box_Height (info_Box info) / 2)) < 2 ^ 63
    \<longrightarrow> pointerY e info
        = (if 0 \<le> round64 e (box_Y (info_Box info) + round64 e (box_Height (info_Box info) / 2))
           then \<lfloor>round64 e (box_Y (info_Box info) + round64 e (box_Height (info_Box info) / 2))\<rfloor>
           else \<lceil>round64 e (box_Y (info_Box info) + round64 e (box_Height (info_Box info) / 2))\<rceil>))
   \<and> (\<forall>ctx w1 w2. resolveContext e w cmd = (Inr ctx, w1)
         \<and> waitForElement e w1 ctx (param_string cmd ''selector'')
              (remainingTime w1 (now w + commandTimeout cmd)) = (Inr info, w2)
       \<longrightarrow> BidiSendCmd (nextInternalID (sess w2)) ''input.performActions''
             (clickParams ctx (pointerX e info) (pointerY e info))
             \<in> set (log (handleVibiumClick e w cmd)) \<inter> set (log (handleVibiumType e w cmd)))"
proof -
  have x: "- (2 ^ 63) \<le> round64 e (box_X (info_Box info) + round64 e (box_Width (info_Box info) / 2))
      \<and> round64 e (box_X (info_Box info) + round64 e (box_Width (info_Box info) / 2)) < 2 ^ 63
    \<longrightarrow> pointerX e info
        = (if 0 \<le> round64 e (box_X (info_Box info) + round64 e (box_Width (info_Box info) / 2))
           then \<lfloor>round64 e (box_X (info_Box info) + round64 e (box_Width (info_Box info) / 2))\<rfloor>
           else \<lceil>round64 e (box_X (info_Box info) + round64 e (box_Width (info_Box info) / 2))\<rceil>)"
    unfolding pointerX_def using float64_to_int_trunc by blast
  have y: "- (2 ^ 63) \<le> round64 e (box_Y (info_Box info) + round64 e (box_Height (info_Box info) / 2))
      \<and> round64 e (box_Y (info_Box info) + round64 e (box_Height (info_Box info) / 2)) < 2 ^ 63
    \<longrightarrow> pointerY e info
        = (if 0 \<le> round64 e (box_Y (info_Box info) + round64 e (box_Height (info_Box info) / 2))
           then \<lfloor>round64 e (box_Y (info_Box info) + round64 e (box_Height (info_Box info) / 2))\<rfloor>
           else \<lceil>round64 e (box_Y (info_Box info) + round64 e (box_Height (info_Box info) / 2))\<rceil>)"
    unfolding pointerY_def using float64_to_int_trunc by blast
  have h: "\<forall>ctx w1 w2. resolveContext e w cmd = (Inr ctx, w1)
         \<and> waitForElement e w1 ctx (param_string cmd ''selector'')
              (remainingTime w1 (now w + commandTimeout cmd)) = (Inr info, w2)
       \<longrightarrow> BidiSendCmd (nextInternalID (sess w2)) ''input.performActions''
             (clickParams ctx (pointerX e info) (pointerY e info))
             \<in> set (log (handleVibiumClick e w cmd)) \<inter> set (log (handleVibiumType e w cmd))"
  proof (intro allI impI)
    fix ctx :: string and w1 w2 :: world
    let ?ps = "clickParams ctx (pointerX e info) (pointerY e info)"
    let ?a = "BidiSendCmd (nextInternalID (sess w2)) ''input.performActions'' ?ps"
    assume a: "resolveContext e w cmd = (Inr ctx, w1)
         \<and> waitForElement e w1 ctx (param_string cmd ''selector'')
              (remainingTime w1 (now w + commandTimeout cmd)) = (Inr info, w2)"
    then have c: "?a \<in> set (log (handleVibiumClick e w cmd))"
      using performAndWait_logged [of w2 ?ps e]
      by (simp add: handleVibiumClick_def Let_def)
    obtain k w3 where fc: "sendInternalCommand e w2 ''input.performActions'' ?ps = (k, w3)"
      by force
    have in3: "?a \<in> set (log w3)"
      using sendInternalCommand_logged [of w2 "''input.performActions''" ?ps e] fc by simp
    have "?a \<in> set (log (handleVibiumType e w cmd))"
    proof (cases k)
      case (Inl err)
      with a fc in3 show ?thesis
        by (simp add: handleVibiumType_def Let_def sendError_def)
    next
      case (Inr resp)
      have "extended w3 (performAndWait e w3 (cmd_ID cmd)
              (if param_string cmd ''waitBehavior'' = [] then ''none'' else param_string cmd ''waitBehavior'')
              (commandTimeout cmd) (now w + commandTimeout cmd)
              (typeParams e ctx (param_string cmd ''text'')) (JObj [(''typed'', JBool True)]))"
        using performAndWait_settled by blast
      from extended_subset [OF this] in3 Inr a fc show ?thesis
        by (auto simp: handleVibiumType_def Let_def)
    qed
    with c show "?a \<in> set (log (handleVibiumClick e w cmd)) \<inter> set (log (handleVibiumType e w cmd))"
      by simp
  qed
  show ?thesis
    by (rule conjI [OF x conjI [OF y h]])
qed

text \<open>
  An element found at the first poll whose box starts at (-3, -3) and is 1 wide and 1
  high, with exact arithmetic: the centre is (-2.5, -2.5) and the click goes to (-2, -2).
\<close>

theorem pointer_truncates_towards_zero_witness:
  "pointerX quiet \<lparr>info_Tag = ''a'', info_Text = [],
      info_Box = \<lparr>box_X = - 3, box_Y = - 3, box_Width = 1, box_Height = 1\<rparr>\<rparr> = - 2
   \<and> pointerY quiet \<lparr>info_Tag = ''a'', info_Text = [],
      info_Box = \<lparr>box_X = - 3, box_Y = - 3, box_Width = 1, box_Height = 1\<rparr>\<rparr> = - 2
   \<and> BidiSendCmd 1000001 ''input.performActions'' (clickParams ''ctx-1'' (- 2) (- 2))
       \<in> set (log (handleVibiumClick
            (quiet\<lparr>reply := (\<lambda>i. Some (1000000, ''r'')),
               decode_callFunction := (\<lambda>msg. Some (''string'', ''{}'')),
               decode_elementInfo := (\<lambda>msg. Some \<lparr>info_Tag = ''a'', info_Text = [],
                  info_Box = \<lparr>box_X = - 3, box_Y = - 3, box_Width = 1, box_Height = 1\<rparr>\<rparr>)\<rparr>)
            connected
            \<lparr>cmd_ID = 5, cmd_Method = ''vibium:click'',
             cmd_Params = [''selector'' \<mapsto> JStr ''a'', ''context'' \<mapsto> JStr ''ctx-1'']\<rparr>))"
proof -
  let ?info = "\<lparr>info_Tag = ''a'', info_Text = [],
      info_Box = \<lparr>box_X = - 3, box_Y = - 3, box_Width = 1, box_Height = 1\<rparr>\<rparr>"
  let ?e = "quiet\<lparr>reply := (\<lambda>i. Some (1000000, ''r'')),
               decode_callFunction := (\<lambda>msg. Some (''string'', ''{}'')),
               decode_elementInfo := (\<lambda>msg. Some ?info)\<rparr>"
  let ?cmd = "\<lparr>cmd_ID = 5, cmd_Method = ''vibium:click'',
             cmd_Params = [''selector'' \<mapsto> JStr ''a'', ''context'' \<mapsto> JStr ''ctx-1'']\<rparr>"
  let ?w2 = "sent connected ''script.callFunction'' (findParams ''ctx-1'' ''a'') 1000000"
  have r: "round64 ?e = (\<lambda>x. x)" "round64 quiet = (\<lambda>x. x)" by (simp_all add: quiet_def)
  have rc: "resolveContext ?e connected ?cmd = (Inr ''ctx-1'', connected)"
    by (simp add: resolveContext_def param_string_def)
  have sel: "param_string ?cmd ''selector'' = ''a''"
    by (simp add: param_string_def)
  have tmo: "remainingTime connected (now connected + commandTimeout ?cmd) = 30000000000"
    by (simp add: commandTimeout_def param_float64_def defaultTimeout_def Second_def
          remainingTime_def connected_eq)
  have s: "sendInternalCommand ?e connected ''script.callFunction'' (findParams ''ctx-1'' ''a'')
           = (Inr ''r'', ?w2)"
    by (simp add: sendInternalCommand_def registerInternal_def awaitInternal_def select_def
          unregisterInternal_def emit_def sent_def stop_ready_def Let_def quiet_def connected_eq
          Second_def)
  have poll: "pollElement ?e connected ''ctx-1'' ''a'' = (Some ?info, ?w2)"
    by (simp add: pollElement_def s)
  have we: "waitForElement ?e connected ''ctx-1'' ''a'' 30000000000 = (Inr ?info, ?w2)"
    by (simp add: waitForElement_def
          waitForElement_loop.simps [of ?e "''ctx-1''" "''a''" 30000000000 "now connected + 30000000000" connected]
          poll)
  have nid: "nextInternalID (sess ?w2) = 1000001"
    by (simp add: sent_def connected_eq wrap64_def)
  have px: "pointerX ?e ?info = pointerX quiet ?info" "pointerY ?e ?info = pointerY quiet ?info"
    by (simp_all add: pointerX_def pointerY_def r)
  from pointer_truncates_towards_zero [of quiet ?info connected ?cmd]
  have xy: "pointerX quiet ?info = - 2" "pointerY quiet ?info = - 2"
    by (simp_all add: r)
  from pointer_truncates_towards_zero [of ?e ?info connected ?cmd] rc we
  have "BidiSendCmd (nextInternalID (sess ?w2)) ''input.performActions''
          (clickParams ''ctx-1'' (pointerX ?e ?info) (pointerY ?e ?info))
        \<in> set (log (handleVibiumClick ?e connected ?cmd))"
    by (simp add: sel tmo)
  with xy show ?thesis by (simp add: nid px)
qed

text \<open>
  C8 as stated rounds down also below zero. For the box above the centre's
  x-coordinate is -2.5, whose floor is -3; the pointer goes to -2.
\<close>

theorem pointer_floor_counterexample:
  "pointerX quiet \<lparr>info_Tag = ''a'', info_Text = [],
      info_Box = \<lparr>box_X = - 3, box_Y = - 3, box_Width = 1, box_Height = 1\<rparr>\<rparr>
   \<noteq> \<lfloor>(- 3 :: real) + 1 / 2\<rfloor>"
  by (simp add: pointerX_def float64_to_int_def quiet_def)

subsection \<open>Routing of browser frames\<close>

lemma ids_inv_pending: "ids_inv w \<Longrightarrow> internalCmds (sess w) i = Some ch \<Longrightarrow> 0 < i"
  by (force simp: ids_inv_def)


lemma plain_forward:
  assumes "\<not> stopChan (sess w)" "decode_frame e msg = Some (Some i, m)" "internalTarget e w msg = None"
  shows "log (snd (routeBrowserToClient_step e w (Inr msg))) = log w @ [ClientSend msg]"
  using assms by (simp add: routeBrowserToClient_step_def split: option.splits)

text \<open>
  C2. A frame that the Correlator has received (the stop signal was not yet closed) and
  that carries an id. If the id is pending, a reply channel being registered for it,
  the frame is not forwarded to the client: it is put into the reply channel, or the
  Correlator stays in the send while the one-slot buffer is full. If the id is not
  pending, the frame is forwarded to the client as it came. The frame that answers a
  command just registered goes to that command's channel.
\<close>

theorem frame_with_id_routed:
  assumes "ids_inv w" "\<not> stopChan (sess w)" "decode_frame e msg = Some (Some i, m)"
  shows "(\<forall>ch. internalCmds (sess w) i = Some ch \<and> \<not> ch_closed (chans w ch) \<longrightarrow>
            log (snd (routeBrowserToClient_step e w (Inr msg))) = log w
            \<and> routeBrowserToClient_step e w (Inr msg)
                = (if length (buf (chans w ch)) < cap (chans w ch)
                   then (Continue, chan_put ch msg w) else (Blocked, w))
            \<and> buf (chans (chan_put ch msg w) ch) = buf (chans w ch) @ [msg])
     \<and> (internalCmds (sess w) i = None \<longrightarrow>
            log (snd (routeBrowserToClient_step e w (Inr msg))) = log w @ [ClientSend msg])
     \<and> (decode_frame e msg = Some (Some (nextInternalID (sess w)), m) \<longrightarrow>
            routeBrowserToClient_step e (snd (snd (registerInternal w))) (Inr msg)
              = (Continue, chan_put (nextChan w) msg (snd (snd (registerInternal w))))
            \<and> buf (chans (chan_put (nextChan w) msg (snd (snd (registerInternal w)))) (nextChan w)) = [msg])"
proof -
  have a: "\<forall>ch. internalCmds (sess w) i = Some ch \<and> \<not> ch_closed (chans w ch) \<longrightarrow>
            log (snd (routeBrowserToClient_step e w (Inr msg))) = log w
            \<and> routeBrowserToClient_step e w (Inr msg)
                = (if length (buf (chans w ch)) < cap (chans w ch)
                   then (Continue, chan_put ch msg w) else (Blocked, w))
            \<and> buf (chans (chan_put ch msg w) ch) = buf (chans w ch) @ [msg]"
  proof (intro allI impI)
    fix ch
    assume p: "internalCmds (sess w) i = Some ch \<and> \<not> ch_closed (chans w ch)"
    with assms(1) have "0 < i" using ids_inv_pending by blast
    with p assms(3) have t: "internalTarget e w msg = Some ch"
      by (simp add: internalTarget_def)
    with p assms(2) show "log (snd (routeBrowserToClient_step e w (Inr msg))) = log w
            \<and> routeBrowserToClient_step e w (Inr msg)
                = (if length (buf (chans w ch)) < cap (chans w ch)
                   then (Continue, chan_put ch msg w) else (Blocked, w))
            \<and> buf (chans (chan_put ch msg w) ch) = buf (chans w ch) @ [msg]"
      by (simp add: routeBrowserToClient_step_def chan_put_def)
  qed
  have b: "internalCmds (sess w) i = None \<longrightarrow>
            log (snd (routeBrowserToClient_step e w (Inr msg))) = log w @ [ClientSend msg]"
  proof
    assume "internalCmds (sess w) i = None"
    with assms(3) have "internalTarget e w msg = None"
      by (simp add: internalTarget_def)
    with assms show "log (snd (routeBrowserToClient_step e w (Inr msg))) = log w @ [ClientSend msg]"
      by (intro plain_forward)
  qed
  have c: "decode_frame e msg = Some (Some (nextInternalID (sess w)), m) \<longrightarrow>
            routeBrowserToClient_step e (snd (snd (registerInternal w))) (Inr msg)
              = (Continue, chan_put (nextChan w) msg (snd (snd (registerInternal w))))
            \<and> buf (chans (chan_put (nextChan w) msg (snd (snd (registerInternal w)))) (nextChan w)) = [msg]"
  proof
    assume d: "decode_frame e msg = Some (Some (nextInternalID (sess w)), m)"
    from assms(1) have "0 < nextInternalID (sess w)" by (simp add: ids_inv_def)
    with d have "internalTarget e (snd (snd (registerInternal w))) msg = Some (nextChan w)"
      by (simp add: internalTarget_def registerInternal_def Let_def)
    with assms(2) show "routeBrowserToClient_step e (snd (snd (registerInternal w))) (Inr msg)
              = (Continue, chan_put (nextChan w) msg (snd (snd (registerInternal w))))
            \<and> buf (chans (chan_put (nextChan w) msg (snd (snd (registerInternal w)))) (nextChan w)) = [msg]"
      by (simp add: routeBrowserToClient_step_def chan_put_def registerInternal_def Let_def)
  qed
  show ?thesis by (rule conjI [OF a conjI [OF b c]])
qed

lemma ids_inv_connected: "ids_inv connected"
  by (simp add: connected_eq ids_inv_def)

text \<open>
  On the connected session: a frame with id 7 goes to the client, and the frame that
  answers the first internal command goes to its channel and not to the client.
\<close>

theorem frame_with_id_routed_witness:
  "ids_inv connected \<and> \<not> stopChan (sess connected)
   \<and> decode_frame (quiet\<lparr>decode_frame := (\<lambda>msg. Some (Some 7, []))\<rparr>) ''{id:7,result:{}}'' = Some (Some 7, [])
   \<and> log (snd (routeBrowserToClient_step (quiet\<lparr>decode_frame := (\<lambda>msg. Some (Some 7, []))\<rparr>)
                 connected (Inr ''{id:7,result:{}}'')))
      = [SessionSubscribe navigationEvents, ClientSend ''{id:7,result:{}}'']
   \<and> log (snd (routeBrowserToClient_step (quiet\<lparr>decode_frame := (\<lambda>msg. Some (Some 1000000, []))\<rparr>)
                 (snd (snd (registerInternal connected))) (Inr ''{id:1000000,result:{}}'')))
      = [SessionSubscribe navigationEvents]
   \<and> buf (chans (snd (routeBrowserToClient_step (quiet\<lparr>decode_frame := (\<lambda>msg. Some (Some 1000000, []))\<rparr>)
                 (snd (snd (registerInternal connected))) (Inr ''{id:1000000,result:{}}''))) 0)
      = [''{id:1000000,result:{}}'']"
  using frame_with_id_routed [of connected "quiet\<lparr>decode_frame := (\<lambda>msg. Some (Some 7, []))\<rparr>"
        "''{id:7,result:{}}''" 7 "[]"]
    frame_with_id_routed [of connected "quiet\<lparr>decode_frame := (\<lambda>msg. Some (Some 1000000, []))\<rparr>"
        "''{id:1000000,result:{}}''" 1000000 "[]"]
    ids_inv_connected
  by (simp add: connected_eq chan_put_def registerInternal_def Let_def)

subsection \<open>The two ranges of ids\<close>









subsection \<open>Waits and the stop signal\<close>

lemma silent_poll_none:
  assumes "reply e = (\<lambda>i. None)"
  shows "fst (pollElement e v c s) = None"
proof -
  have "\<exists>err. fst (sendInternalCommand e v ''script.callFunction'' (findParams c s)) = Inl err"
    using sendInternalCommand_result [of e v "''script.callFunction''" "findParams c s"] assms
    by auto
  then show ?thesis
    by (auto simp: pollElement_def split: prod.splits sum.splits)
qed

lemma silent_waitEvent:
  assumes "browser_events e = []"
  shows "waitEvent e w m r d = (False, w\<lparr>now := now w + remainingTime w d\<rparr>)"
proof -
  let ?alts = "[(Recv, map_option (max (now w)) (first_event e m r))]"
  have none: "ready_cases ?alts = []"
    using assms by (simp add: first_event_def)
  obtain c t where ct: "select (pick e (now w)) (now w + remainingTime w d) ?alts = (c, t)"
    by (cases "select (pick e (now w)) (now w + remainingTime w d) ?alts")
  from select_sound(1) [OF ct] none have "c = Timer" "t = now w + remainingTime w d"
    by simp_all
  with ct show ?thesis by (simp add: waitEvent_def)
qed

lemma stopped_awaitInternal:
  assumes "stopChan (sess w)" "reply e = (\<lambda>i. None)"
  shows "awaitInternal e w i m = (Inl ''session closed'', w)"
proof -
  let ?alts = "[(Recv, map_option (\<lambda>r. now w + int (fst r)) (reply e i)), (Stop, stop_ready e w)]"
  have rc: "ready_cases ?alts = [(Stop, now w)]"
    using assms by (simp add: stop_ready_def)
  obtain c t where ct: "select (pick e (now w)) (now w + 60 * Second) ?alts = (c, t)"
    by (cases "select (pick e (now w)) (now w + 60 * Second) ?alts")
  from select_sound(3) [OF ct] rc have "t \<le> now w" by simp
  with select_sound(1) [OF ct] rc have "c = Stop" "t = now w"
    by (auto simp: Second_def)
  with ct show ?thesis by (simp add: awaitInternal_def Let_def)
qed

text \<open>
  C4, on the code. Take the stop signal closed and a browser that answers no command
  and emits no event any more. The wait of an internal command that could be written
  ends at once with the session-closed error. The polling loop nevertheless runs to
  its deadline and ends with the timeout error, and the first navigation wait of click
  and type lasts until the deadline and ends with the timeout error of its stage.
\<close>

theorem waits_after_stop:
  assumes "stopChan (sess w)" "reply e = (\<lambda>i. None)" "browser_events e = []"
  shows "awaitInternal e w i m = (Inl ''session closed'', w)
    \<and> (\<exists>w'. waitForElement e w c s t = (Inl (notFound t s), w') \<and> now w + t < now w')
    \<and> (wb \<noteq> ''none'' \<and> now w \<le> d \<longrightarrow>
         waitStages e wb t d r w
           = (Inl (''timeout after '' @ durationString t @ '' waiting for navigation to start''),
              w\<lparr>now := d\<rparr>))"
proof -
  have 1: "awaitInternal e w i m = (Inl ''session closed'', w)"
    using assms(1,2) by (rule stopped_awaitInternal)
  obtain w' where l: "waitForElement_loop e c s t (now w + t) w = (Inl (notFound t s), w')"
    using loop_absent [of e c s t "now w + t" w] silent_poll_none [OF assms(2)] by blast
  then have "now w + t < now w'"
    using loop_error by blast
  with l have 2: "\<exists>w'. waitForElement e w c s t = (Inl (notFound t s), w') \<and> now w + t < now w'"
    by (simp add: waitForElement_def)
  have 3: "wb \<noteq> ''none'' \<and> now w \<le> d \<longrightarrow>
         waitStages e wb t d r w
           = (Inl (''timeout after '' @ durationString t @ '' waiting for navigation to start''),
              w\<lparr>now := d\<rparr>)"
    by (simp add: waitStages_def silent_waitEvent [OF assms(3)] remainingTime_def)
  show ?thesis by (rule conjI [OF 1 conjI [OF 2 3]])
qed

text \<open>
  The connected session after \<open>closeSession\<close>, at instant 0: a click that has just sent
  its action and waits for the page load with the default timeout of 30 seconds is
  answered at 30 seconds, with the timeout of the first stage.
\<close>

theorem waits_after_stop_witness:
  "stopChan (sess (snd (closeSession answered connected)))
   \<and> reply quiet = (\<lambda>i. None) \<and> browser_events quiet = []
   \<and> ''waitForLoad'' \<noteq> ''none'' \<and> now (snd (closeSession answered connected)) \<le> 30000000000
   \<and> awaitInternal quiet (snd (closeSession answered connected)) 1000000 ''input.performActions''
      = (Inl ''session closed'', snd (closeSession answered connected))
   \<and> fst (waitStages quiet ''waitForLoad'' 30000000000 30000000000 0 (snd (closeSession answered connected)))
      = Inl ''timeout after 30s waiting for navigation to start''
   \<and> now (snd (waitStages quiet ''waitForLoad'' 30000000000 30000000000 0 (snd (closeSession answered connected))))
      = 30000000000"
proof -
  have c: "stopChan (sess (snd (closeSession answered connected)))" "now (snd (closeSession answered connected)) = 0"
    by (simp_all add: closed_connected) (simp add: connected_eq)
  have q: "reply quiet = (\<lambda>i. None)" "browser_events quiet = []"
    by (simp_all add: quiet_def)
  have d: "durationString 30000000000 = ''30s''"
    by (simp add: durationString_def fmtInt_def digit_char_def Let_def)
  from waits_after_stop [OF c(1) q, where wb = "''waitForLoad''" and d = 30000000000
      and t = 30000000000 and r = 0 and m = "''input.performActions''" and i = 1000000]
  show ?thesis using c q by (simp add: d)
qed

end
